theory Spec2Isabelle
  imports Complex_Main
begin

section \<open>Errors and outcomes\<close>

text \<open>
  Every Go function of the client returns a value together with an \<^verbatim>\<open>error\<close>, which is
  \<^verbatim>\<open>nil\<close> on success. The model writes the error as an \<open>error option\<close> (\<open>None\<close> is
  \<^verbatim>\<open>nil\<close>). The constructors name the places an error can come from: the libraries the
  client calls (\<^verbatim>\<open>encoding/json\<close>, \<^verbatim>\<open>net/http\<close>, \<^verbatim>\<open>io\<close>, \<^verbatim>\<open>strconv\<close>, \<^verbatim>\<open>time\<close>) and the one
  error the client builds itself with \<^verbatim>\<open>fmt.Errorf\<close>, which carries its message.
\<close>

datatype error =
    MarshalError string
  | URLError string
  | TransportError string
  | BodyReadError string
  | EOF
  | ErrUnexpectedEOF
  | SyntaxError
  | UnmarshalTypeError string string
  | TimeParseError string
  | ErrSyntax string
  | ErrRange string
  | Errorf string

text \<open>
  A call either returns to its caller or panics (a nil pointer dereference is the only
  panic the client's own code can raise).
\<close>

datatype 'a outcome = Returned 'a | Panicked

section \<open>JSON texts as \<^verbatim>\<open>encoding/json\<close> reads them\<close>

subsection \<open>Bytes\<close>

definition byte :: "char \<Rightarrow> nat" where
  "byte c = of_char c"

definition isSpace :: "char \<Rightarrow> bool" where
  "isSpace c = (byte c = 32 \<or> byte c = 9 \<or> byte c = 13 \<or> byte c = 10)"

definition isDigit :: "char \<Rightarrow> bool" where
  "isDigit c = (48 \<le> byte c \<and> byte c \<le> 57)"

definition isDigit19 :: "char \<Rightarrow> bool" where
  "isDigit19 c = (49 \<le> byte c \<and> byte c \<le> 57)"

definition isHex :: "char \<Rightarrow> bool" where
  "isHex c = (isDigit c \<or> (97 \<le> byte c \<and> byte c \<le> 102) \<or> (65 \<le> byte c \<and> byte c \<le> 70))"

definition lower :: "char \<Rightarrow> char" where
  "lower c = (if 65 \<le> byte c \<and> byte c \<le> 90 then char_of (byte c + 32) else c)"

subsection \<open>The scanner\<close>

text \<open>
  The scanner of \<^verbatim>\<open>encoding/json\<close> is a state machine that reads one byte at a time. It is
  modelled in two layers with the same accepted language: \<open>lex\<close> cuts the bytes into
  tokens (its states are the scanner's states inside a string, a number and a literal), and
  \<open>parse\<close> runs the scanner's states between tokens over a stack of open arrays and
  objects. The token list ends with \<open>TBad\<close> at the first byte that no JSON text can
  continue with, and with \<open>TPartial\<close> when the input ends inside a token (\<open>TPartial True\<close>
  inside a string). A string token keeps the bytes between its quotes as they stand, still
  escaped; a number token keeps its literal.
\<close>

datatype token =
    TLBrace | TRBrace | TLBrack | TRBrack | TColon | TComma
  | TString string
  | TNumber string
  | TTrue | TFalse | TNull
  | TBad
  | TPartial bool

datatype lstate =
    LStart
  | LStr string
  | LStrEsc string
  | LStrU nat string
  | LNeg string
  | LZero string
  | LInt string
  | LDot string
  | LFrac string
  | LE string
  | LESign string
  | LExp string
  | LLit string token

definition lstart :: "char \<Rightarrow> token list \<times> lstate option" where
  "lstart c =
     (if isSpace c then ([], Some LStart)
      else if c = CHR ''{'' then ([TLBrace], Some LStart)
      else if c = CHR ''}'' then ([TRBrace], Some LStart)
      else if c = CHR ''['' then ([TLBrack], Some LStart)
      else if c = CHR '']'' then ([TRBrack], Some LStart)
      else if c = CHR '':'' then ([TColon], Some LStart)
      else if c = CHR '','' then ([TComma], Some LStart)
      else if byte c = 34 then ([], Some (LStr []))
      else if c = CHR ''-'' then ([], Some (LNeg [c]))
      else if c = CHR ''0'' then ([], Some (LZero [c]))
      else if isDigit19 c then ([], Some (LInt [c]))
      else if c = CHR ''t'' then ([], Some (LLit ''rue'' TTrue))
      else if c = CHR ''f'' then ([], Some (LLit ''alse'' TFalse))
      else if c = CHR ''n'' then ([], Some (LLit ''ull'' TNull))
      else ([TBad], None))"

definition lend :: "string \<Rightarrow> char \<Rightarrow> token list \<times> lstate option" where
  "lend acc c = (case lstart c of (ts, st) \<Rightarrow> (TNumber acc # ts, st))"

definition isExp :: "char \<Rightarrow> bool" where
  "isExp c = (c = CHR ''e'' \<or> c = CHR ''E'')"

fun lstep :: "lstate \<Rightarrow> char \<Rightarrow> token list \<times> lstate option" where
  "lstep LStart c = lstart c"
| "lstep (LStr acc) c =
     (if byte c = 34 then ([TString acc], Some LStart)
      else if byte c = 92 then ([], Some (LStrEsc (acc @ [c])))
      else if byte c < 32 then ([TBad], None)
      else ([], Some (LStr (acc @ [c]))))"
| "lstep (LStrEsc acc) c =
     (if c = CHR ''b'' \<or> c = CHR ''f'' \<or> c = CHR ''n'' \<or> c = CHR ''r'' \<or> c = CHR ''t''
         \<or> byte c = 92 \<or> c = CHR ''/'' \<or> byte c = 34
      then ([], Some (LStr (acc @ [c])))
      else if c = CHR ''u'' then ([], Some (LStrU 4 (acc @ [c])))
      else ([TBad], None))"
| "lstep (LStrU n acc) c =
     (if isHex c then ([], Some (if n \<le> 1 then LStr (acc @ [c]) else LStrU (n - 1) (acc @ [c])))
      else ([TBad], None))"
| "lstep (LNeg acc) c =
     (if c = CHR ''0'' then ([], Some (LZero (acc @ [c])))
      else if isDigit19 c then ([], Some (LInt (acc @ [c])))
      else ([TBad], None))"
| "lstep (LZero acc) c =
     (if c = CHR ''.'' then ([], Some (LDot (acc @ [c])))
      else if isExp c then ([], Some (LE (acc @ [c])))
      else lend acc c)"
| "lstep (LInt acc) c =
     (if isDigit c then ([], Some (LInt (acc @ [c])))
      else if c = CHR ''.'' then ([], Some (LDot (acc @ [c])))
      else if isExp c then ([], Some (LE (acc @ [c])))
      else lend acc c)"
| "lstep (LDot acc) c =
     (if isDigit c then ([], Some (LFrac (acc @ [c]))) else ([TBad], None))"
| "lstep (LFrac acc) c =
     (if isDigit c then ([], Some (LFrac (acc @ [c])))
      else if isExp c then ([], Some (LE (acc @ [c])))
      else lend acc c)"
| "lstep (LE acc) c =
     (if c = CHR ''+'' \<or> c = CHR ''-'' then ([], Some (LESign (acc @ [c])))
      else if isDigit c then ([], Some (LExp (acc @ [c])))
      else ([TBad], None))"
| "lstep (LESign acc) c =
     (if isDigit c then ([], Some (LExp (acc @ [c]))) else ([TBad], None))"
| "lstep (LExp acc) c =
     (if isDigit c then ([], Some (LExp (acc @ [c]))) else lend acc c)"
| "lstep (LLit rest t) c =
     (case rest of
        [] \<Rightarrow> ([TBad], None)
      | x # xs \<Rightarrow>
          if c \<noteq> x then ([TBad], None)
          else if xs = [] then ([t], Some LStart)
          else ([], Some (LLit xs t)))"

fun lfinish :: "lstate \<Rightarrow> token list" where
  "lfinish LStart = []"
| "lfinish (LStr acc) = [TPartial True]"
| "lfinish (LStrEsc acc) = [TPartial True]"
| "lfinish (LStrU n acc) = [TPartial True]"
| "lfinish (LNeg acc) = [TPartial False]"
| "lfinish (LZero acc) = [TNumber acc]"
| "lfinish (LInt acc) = [TNumber acc]"
| "lfinish (LDot acc) = [TPartial False]"
| "lfinish (LFrac acc) = [TNumber acc]"
| "lfinish (LE acc) = [TPartial False]"
| "lfinish (LESign acc) = [TPartial False]"
| "lfinish (LExp acc) = [TNumber acc]"
| "lfinish (LLit rest t) = [TPartial False]"

fun lex :: "lstate \<Rightarrow> string \<Rightarrow> token list" where
  "lex st [] = lfinish st"
| "lex st (c # cs) =
     (case lstep st c of
        (ts, None) \<Rightarrow> ts
      | (ts, Some st') \<Rightarrow> ts @ lex st' cs)"

subsection \<open>Strings\<close>

text \<open>
  \<^verbatim>\<open>unquote\<close> turns the bytes between the quotes into the string they denote: escapes are
  replaced, a \<^verbatim>\<open>\u\<close> escape becomes the UTF-8 encoding of its code point (two escapes that
  form a surrogate pair become one code point, a lone surrogate becomes U+FFFD), and bytes
  that are not well-formed UTF-8 are replaced by U+FFFD one at a time.
\<close>

definition hexval :: "char \<Rightarrow> int" where
  "hexval c =
     (if isDigit c then int (byte c) - 48
      else if 97 \<le> byte c \<and> byte c \<le> 102 then int (byte c) - 87
      else int (byte c) - 55)"

definition getu4 :: "string \<Rightarrow> int option" where
  "getu4 s =
     (case s of
        b # u # h1 # h2 # h3 # h4 # _ \<Rightarrow>
          if byte b = 92 \<and> u = CHR ''u'' \<and> isHex h1 \<and> isHex h2 \<and> isHex h3 \<and> isHex h4
          then Some (((hexval h1 * 16 + hexval h2) * 16 + hexval h3) * 16 + hexval h4)
          else None
      | _ \<Rightarrow> None)"

definition RuneError :: int where
  "RuneError = 65533"

definition EncodeRune :: "int \<Rightarrow> string" where
  "EncodeRune r =
     (let r' = (if (55296 \<le> r \<and> r \<le> 57343) \<or> 1114111 < r then RuneError else r) in
      if r' < 128 then [char_of r']
      else if r' < 2048 then [char_of (192 + r' div 64), char_of (128 + r' mod 64)]
      else if r' < 65536 then
        [char_of (224 + r' div 4096), char_of (128 + (r' div 64) mod 64), char_of (128 + r' mod 64)]
      else
        [char_of (240 + r' div 262144), char_of (128 + (r' div 4096) mod 64),
         char_of (128 + (r' div 64) mod 64), char_of (128 + r' mod 64)])"

definition isCont :: "char \<Rightarrow> bool" where
  "isCont c = (128 \<le> byte c \<and> byte c \<le> 191)"

text \<open>The number of bytes of the well-formed UTF-8 sequence at the head of \<open>s\<close>, or 0.\<close>

definition utf8_width :: "string \<Rightarrow> nat" where
  "utf8_width s =
     (case s of
        [] \<Rightarrow> 0
      | c0 # s1 \<Rightarrow>
          let b0 = byte c0 in
          if b0 < 128 then 1
          else if 194 \<le> b0 \<and> b0 \<le> 223 then
            (case s1 of c1 # _ \<Rightarrow> if isCont c1 then 2 else 0 | _ \<Rightarrow> 0)
          else if 224 \<le> b0 \<and> b0 \<le> 239 then
            (case s1 of
               c1 # c2 # _ \<Rightarrow>
                 if (if b0 = 224 then 160 else 128) \<le> byte c1
                    \<and> byte c1 \<le> (if b0 = 237 then 159 else 191) \<and> isCont c2
                 then 3 else 0
             | _ \<Rightarrow> 0)
          else if 240 \<le> b0 \<and> b0 \<le> 244 then
            (case s1 of
               c1 # c2 # c3 # _ \<Rightarrow>
                 if (if b0 = 240 then 144 else 128) \<le> byte c1
                    \<and> byte c1 \<le> (if b0 = 244 then 143 else 191) \<and> isCont c2 \<and> isCont c3
                 then 4 else 0
             | _ \<Rightarrow> 0)
          else 0)"

definition escaped :: "char \<Rightarrow> char" where
  "escaped c =
     (if c = CHR ''b'' then char_of (8::nat)
      else if c = CHR ''f'' then char_of (12::nat)
      else if c = CHR ''n'' then char_of (10::nat)
      else if c = CHR ''r'' then char_of (13::nat)
      else if c = CHR ''t'' then char_of (9::nat)
      else c)"

function unquote :: "string \<Rightarrow> string" where
  "unquote s =
     (case s of
        [] \<Rightarrow> []
      | c # cs \<Rightarrow>
          if byte c = 92 then
            (case cs of
               [] \<Rightarrow> []
             | e # es \<Rightarrow>
                 if e = CHR ''u'' then
                   (case getu4 s of
                      None \<Rightarrow> []
                    | Some r \<Rightarrow>
                        if 55296 \<le> r \<and> r \<le> 57343 then
                          (case getu4 (drop 6 s) of
                             Some r2 \<Rightarrow>
                               if r < 56320 \<and> 56320 \<le> r2 \<and> r2 \<le> 57343
                               then EncodeRune ((r - 55296) * 1024 + (r2 - 56320) + 65536)
                                      @ unquote (drop 12 s)
                               else EncodeRune RuneError @ unquote (drop 6 s)
                           | None \<Rightarrow> EncodeRune RuneError @ unquote (drop 6 s))
                        else EncodeRune r @ unquote (drop 6 s))
                 else escaped e # unquote es)
          else if byte c < 128 then c # unquote cs
          else
            (let w = utf8_width s in
             if w = 0 then EncodeRune RuneError @ unquote cs
             else take w s @ unquote (drop w s)))"
  by pat_completeness auto
termination
  by (relation "measure length") (auto simp: utf8_width_def Let_def split: list.splits if_splits)

subsection \<open>Values\<close>

text \<open>
  A JSON value as the decoder sees it: a string holds the bytes between its quotes (the
  decoder unquotes them when it stores them, and \<^verbatim>\<open>time.Time\<close> reads them as they stand),
  a number holds its literal, and an object holds its members in the order of the text,
  with their keys unquoted and with repeated keys kept.
\<close>

datatype json =
    JNull
  | JBool bool
  | JNum string
  | JStr string
  | JArr "json list"
  | JObj "(string \<times> json) list"

text \<open>
  The states of the scanner between tokens, and the open arrays and objects: an array with
  the elements read so far (last first), an object with its members read so far, and an
  object whose next value belongs to the key just read.
\<close>

datatype pmode =
    BeginValue
  | BeginValueOrEmpty
  | BeginStringOrEmpty
  | BeginString
  | ObjectKey
  | EndValue

datatype frame =
    FArr "json list"
  | FObj "(string \<times> json) list"
  | FKey "(string \<times> json) list" string

datatype presult =
    PError error
  | PDone json
  | PCont pmode "frame list"

definition maxNestingDepth :: nat where
  "maxNestingDepth = 10000"

definition pvalue :: "json \<Rightarrow> frame list \<Rightarrow> presult" where
  "pvalue v st =
     (case st of
        [] \<Rightarrow> PDone v
      | FArr es # fs \<Rightarrow> PCont EndValue (FArr (v # es) # fs)
      | FKey ms k # fs \<Rightarrow> PCont EndValue (FObj ((k, v) # ms) # fs)
      | FObj ms # fs \<Rightarrow> PError SyntaxError)"

definition ppush :: "pmode \<Rightarrow> frame \<Rightarrow> frame list \<Rightarrow> presult" where
  "ppush m f st =
     (if length st < maxNestingDepth then PCont m (f # st) else PError SyntaxError)"

definition pbegin :: "frame list \<Rightarrow> token \<Rightarrow> presult" where
  "pbegin st t =
     (case t of
        TLBrace \<Rightarrow> ppush BeginStringOrEmpty (FObj []) st
      | TLBrack \<Rightarrow> ppush BeginValueOrEmpty (FArr []) st
      | TString s \<Rightarrow> pvalue (JStr s) st
      | TNumber s \<Rightarrow> pvalue (JNum s) st
      | TTrue \<Rightarrow> pvalue (JBool True) st
      | TFalse \<Rightarrow> pvalue (JBool False) st
      | TNull \<Rightarrow> pvalue JNull st
      | TPartial b \<Rightarrow> PError ErrUnexpectedEOF
      | _ \<Rightarrow> PError SyntaxError)"

definition pkey :: "frame list \<Rightarrow> token \<Rightarrow> presult" where
  "pkey st t =
     (case t of
        TString s \<Rightarrow>
          (case st of
             FObj ms # fs \<Rightarrow> PCont ObjectKey (FKey ms (unquote s) # fs)
           | _ \<Rightarrow> PError SyntaxError)
      | TPartial b \<Rightarrow> PError (if b then ErrUnexpectedEOF else SyntaxError)
      | _ \<Rightarrow> PError SyntaxError)"

definition pstep :: "pmode \<Rightarrow> frame list \<Rightarrow> token \<Rightarrow> presult" where
  "pstep m st t =
     (case m of
        BeginValue \<Rightarrow> pbegin st t
      | BeginValueOrEmpty \<Rightarrow>
          (case (t, st) of
             (TRBrack, FArr es # fs) \<Rightarrow> pvalue (JArr (rev es)) fs
           | _ \<Rightarrow> pbegin st t)
      | BeginStringOrEmpty \<Rightarrow>
          (case (t, st) of
             (TRBrace, FObj ms # fs) \<Rightarrow> pvalue (JObj (rev ms)) fs
           | _ \<Rightarrow> pkey st t)
      | BeginString \<Rightarrow> pkey st t
      | ObjectKey \<Rightarrow>
          (case t of TColon \<Rightarrow> PCont BeginValue st | _ \<Rightarrow> PError SyntaxError)
      | EndValue \<Rightarrow>
          (case (t, st) of
             (TComma, FArr es # fs) \<Rightarrow> PCont BeginValue st
           | (TRBrack, FArr es # fs) \<Rightarrow> pvalue (JArr (rev es)) fs
           | (TComma, FObj ms # fs) \<Rightarrow> PCont BeginString st
           | (TRBrace, FObj ms # fs) \<Rightarrow> pvalue (JObj (rev ms)) fs
           | _ \<Rightarrow> PError SyntaxError))"

text \<open>
  \<open>parse\<close> reads the first value of the token list and returns it with the tokens after
  it. Running out of tokens inside a value is \<open>ErrUnexpectedEOF\<close>.
\<close>

fun parse :: "pmode \<Rightarrow> frame list \<Rightarrow> token list \<Rightarrow> error + (json \<times> token list)" where
  "parse m st [] = Inl ErrUnexpectedEOF"
| "parse m st (t # ts) =
     (case pstep m st t of
        PError e \<Rightarrow> Inl e
      | PDone v \<Rightarrow> Inr (v, ts)
      | PCont m' st' \<Rightarrow> parse m' st' ts)"

text \<open>
  \<^verbatim>\<open>json.Unmarshal\<close> first checks that the whole text is one JSON value with nothing but
  white space around it; every failure of that check is a \<^verbatim>\<open>*json.SyntaxError\<close>.
\<close>

definition checkValid :: "string \<Rightarrow> error + json" where
  "checkValid dat =
     (case parse BeginValue [] (lex LStart dat) of
        Inl e \<Rightarrow> Inl SyntaxError
      | Inr (v, rest) \<Rightarrow> if rest = [] then Inr v else Inl SyntaxError)"

text \<open>
  A response body is a stream: the bytes it delivers, and how it ends (\<open>None\<close> is a clean
  end of file, \<open>Some e\<close> a failed read after the bytes).
\<close>

record body =
  bytes :: string
  read_err :: "error option"

definition isContainer :: "json \<Rightarrow> bool" where
  "isContainer v = (case v of JArr _ \<Rightarrow> True | JObj _ \<Rightarrow> True | _ \<Rightarrow> False)"

definition io_ReadAll :: "body \<Rightarrow> error + string" where
  "io_ReadAll b = (case read_err b of None \<Rightarrow> Inr (bytes b) | Some e \<Rightarrow> Inl e)"

text \<open>
  \<^verbatim>\<open>json.NewDecoder(r).Decode\<close> reads the first JSON value of the stream and leaves what
  follows unread. It scans the bytes it has before it looks at the stream's end, so a
  value that is complete in the bytes is returned whatever the end is. An object or array
  is complete at its closing bracket; a string, number or literal is complete at the byte
  after it or at a clean end of file.
\<close>

definition readValue :: "body \<Rightarrow> error + json" where
  "readValue b =
     (let toks = lex LStart (bytes b) in
      if toks = [] then Inl (case read_err b of None \<Rightarrow> EOF | Some e \<Rightarrow> e)
      else
        (case parse BeginValue [] toks of
           Inl e \<Rightarrow>
             if e = ErrUnexpectedEOF
             then Inl (case read_err b of None \<Rightarrow> ErrUnexpectedEOF | Some e' \<Rightarrow> e')
             else Inl e
         | Inr (v, rest) \<Rightarrow>
             if isContainer v \<or> rest \<noteq> [] \<or> isSpace (last (bytes b)) then Inr v
             else (case read_err b of None \<Rightarrow> Inr v | Some e \<Rightarrow> Inl e)))"

section \<open>Numbers as \<^verbatim>\<open>strconv\<close> reads them\<close>

subsection \<open>64-bit floating point\<close>

text \<open>
  A \<^verbatim>\<open>float64\<close> is written as the three fields of its IEEE 754 bit pattern: the sign bit,
  the eleven exponent bits (below 2048) and the 52 fraction bits (below \<open>2 ^ 52\<close>).
  \<open>float64_val\<close> reads the rational number a finite pattern stands for.
\<close>

datatype float64 = Float64 (sign: bool) (expo: int) (frac: int)

definition float64_zero :: float64 where
  "float64_zero = Float64 False 0 0"

definition float64_Inf :: "bool \<Rightarrow> float64" where
  "float64_Inf neg = Float64 neg 2047 0"

definition float64_NaN :: float64 where
  "float64_NaN = Float64 False 2047 (2 ^ 51 + 1)"


function bitlen :: "int \<Rightarrow> int" where
  "bitlen n = (if n \<le> 0 then 0 else 1 + bitlen (n div 2))"
  by pat_completeness auto
termination
  by (relation "measure nat") auto

text \<open>
  \<open>round_float64 neg num den\<close> is the \<^verbatim>\<open>float64\<close> nearest to the rational \<open>num / den\<close>
  (ties to the even fraction), which is what \<^verbatim>\<open>strconv\<close> computes from the digits it
  reads; the second component says that the result is out of range (then it is an
  infinity). With \<open>e\<close> the binary exponent of the number, not below that of the
  subnormals, and \<open>m\<close> the number rounded to a multiple of \<open>2 ^ (e - 52)\<close>, the
  exponent and fraction bits together are the number \<open>(e + 1022) * 2 ^ 52 + m\<close>.
\<close>

definition round_float64 :: "bool \<Rightarrow> int \<Rightarrow> int \<Rightarrow> float64 \<times> bool" where
  "round_float64 neg num den =
     (if num = 0 then (Float64 neg 0 0, False)
      else
        let e0 = bitlen num - bitlen den;
            ge = (if 0 \<le> e0 then den * 2 ^ nat e0 \<le> num else den \<le> num * 2 ^ nat (- e0));
            e = max (if ge then e0 else e0 - 1) (- 1022);
            N = (if e \<le> 52 then num * 2 ^ nat (52 - e) else num);
            D = (if e \<le> 52 then den else den * 2 ^ nat (e - 52));
            q = N div D; r = N mod D;
            m = (if D < 2 * r \<or> (2 * r = D \<and> odd q) then q + 1 else q);
            b = (e + 1022) * 2 ^ 52 + m
        in if 2047 * 2 ^ 52 \<le> b then (float64_Inf neg, True)
           else (Float64 neg (b div 2 ^ 52) (b mod 2 ^ 52), False))"

subsection \<open>\<^verbatim>\<open>strconv.ParseFloat\<close>\<close>

fun commonPrefixLenIgnoreCase :: "string \<Rightarrow> string \<Rightarrow> nat" where
  "commonPrefixLenIgnoreCase (c # s) (p # prefix) =
     (if lower c = p then Suc (commonPrefixLenIgnoreCase s prefix) else 0)"
| "commonPrefixLenIgnoreCase s prefix = 0"

text \<open>
  \<open>special\<close> recognises the names of the values that are not numbers: an optionally
  signed \<^verbatim>\<open>inf\<close> or \<^verbatim>\<open>infinity\<close> and an unsigned \<^verbatim>\<open>nan\<close>, in any letter case. It returns
  the value and the number of bytes it read.
\<close>

definition special_inf :: "bool \<Rightarrow> nat \<Rightarrow> string \<Rightarrow> (float64 \<times> nat) option" where
  "special_inf neg nsign s =
     (let n0 = commonPrefixLenIgnoreCase s ''infinity'';
          n = (if 3 < n0 \<and> n0 < 8 then 3 else n0)
      in if n = 3 \<or> n = 8 then Some (float64_Inf neg, nsign + n) else None)"

definition special :: "string \<Rightarrow> (float64 \<times> nat) option" where
  "special s =
     (case s of
        [] \<Rightarrow> None
      | c # cs \<Rightarrow>
          if c = CHR ''+'' then special_inf False 1 cs
          else if c = CHR ''-'' then special_inf True 1 cs
          else if c = CHR ''i'' \<or> c = CHR ''I'' then special_inf False 0 s
          else if c = CHR ''n'' \<or> c = CHR ''N'' then
            (if commonPrefixLenIgnoreCase s ''nan'' = 3 then Some (float64_NaN, 3) else None)
          else None)"

text \<open>
  \<open>readFloat\<close> reads an optional sign, the digits with at most one point (hexadecimal
  digits after \<^verbatim>\<open>0x\<close>), and an exponent (\<^verbatim>\<open>e\<close> for decimal digits, a mandatory \<^verbatim>\<open>p\<close> for
  hexadecimal ones). The model keeps every digit of the mantissa; Go keeps the first 19 (16
  hexadecimal) and a flag that a later digit was not zero, from which it rounds to the
  same value.
\<close>

record digits =
  sawdot :: bool
  sawdigits :: bool
  underscores :: bool
  nd :: int
  dp :: int
  mantissa :: int

fun readDigits :: "int \<Rightarrow> digits \<Rightarrow> string \<Rightarrow> digits \<times> string" where
  "readDigits base st [] = (st, [])"
| "readDigits base st (c # cs) =
     (if c = CHR ''_'' then readDigits base (st\<lparr>underscores := True\<rparr>) cs
      else if c = CHR ''.'' then
        (if sawdot st then (st, c # cs)
         else readDigits base (st\<lparr>sawdot := True, dp := nd st\<rparr>) cs)
      else if isDigit c then
        (if c = CHR ''0'' \<and> nd st = 0
         then readDigits base (st\<lparr>sawdigits := True, dp := dp st - 1\<rparr>) cs
         else readDigits base
                (st\<lparr>sawdigits := True, nd := nd st + 1,
                    mantissa := mantissa st * base + (int (byte c) - 48)\<rparr>) cs)
      else if base = 16 \<and> 97 \<le> byte (lower c) \<and> byte (lower c) \<le> 102 then
        readDigits base
          (st\<lparr>sawdigits := True, nd := nd st + 1,
              mantissa := mantissa st * 16 + (int (byte (lower c)) - 87)\<rparr>) cs
      else (st, c # cs))"

text \<open>The digits of an exponent: once the value has reached 10000 further digits are skipped.\<close>

fun readExp :: "int \<Rightarrow> bool \<Rightarrow> string \<Rightarrow> int \<times> bool \<times> string" where
  "readExp e us [] = (e, us, [])"
| "readExp e us (c # cs) =
     (if c = CHR ''_'' then readExp e True cs
      else if isDigit c then readExp (if e < 10000 then e * 10 + (int (byte c) - 48) else e) us cs
      else (e, us, c # cs))"

fun underscoreOK_loop :: "bool \<Rightarrow> char \<Rightarrow> string \<Rightarrow> bool" where
  "underscoreOK_loop hex saw [] = (saw \<noteq> CHR ''_'')"
| "underscoreOK_loop hex saw (c # cs) =
     (if isDigit c \<or> (hex \<and> 97 \<le> byte (lower c) \<and> byte (lower c) \<le> 102)
      then underscoreOK_loop hex (CHR ''0'') cs
      else if c = CHR ''_'' then
        (if saw \<noteq> CHR ''0'' then False else underscoreOK_loop hex (CHR ''_'') cs)
      else if saw = CHR ''_'' then False
      else underscoreOK_loop hex (CHR ''!'') cs)"

definition underscoreOK :: "string \<Rightarrow> bool" where
  "underscoreOK s0 =
     (let s = (case s0 of
                 c # cs \<Rightarrow> if c = CHR ''-'' \<or> c = CHR ''+'' then cs else s0
               | [] \<Rightarrow> s0)
      in case s of
           a # b # rest \<Rightarrow>
             if a = CHR ''0'' \<and> (lower b = CHR ''b'' \<or> lower b = CHR ''o'' \<or> lower b = CHR ''x'')
             then underscoreOK_loop (lower b = CHR ''x'') (CHR ''0'') rest
             else underscoreOK_loop False (CHR ''^'') s
         | _ \<Rightarrow> underscoreOK_loop False (CHR ''^'') s)"

text \<open>
  The result of \<open>readFloat\<close>: the sign, whether the digits are hexadecimal, the mantissa,
  the exponent of the base (10, or 2 for hexadecimal digits) and the number of bytes read.
\<close>

definition hexPrefix :: "string \<Rightarrow> bool" where
  "hexPrefix s = (case s of a # b # _ # _ \<Rightarrow> a = CHR ''0'' \<and> lower b = CHR ''x'' | _ \<Rightarrow> False)"

definition noDigits :: digits where
  "noDigits = \<lparr>sawdot = False, sawdigits = False, underscores = False,
               nd = 0, dp = 0, mantissa = 0\<rparr>"

text \<open>
  The end of \<open>readFloat\<close>, after the digits \<open>st\<close> and with \<open>s3\<close> still to read: the
  exponent, which moves the point, and the check of the underscores.
\<close>

definition readFloatExp :: "string \<Rightarrow> bool \<Rightarrow> bool \<Rightarrow> digits \<Rightarrow> string \<Rightarrow> (bool \<times> bool \<times> int \<times> int \<times> nat) option" where
  "readFloatExp s neg hex st s3 =
     (let dp1 = (if sawdot st then dp st else nd st);
          dp2 = (if hex then dp1 * 4 else dp1);
          ndMant = (if hex then nd st * 4 else nd st);
          fin = (\<lambda>dp3 us rest.
                   let n = length s - length rest in
                   if us \<and> \<not> underscoreOK (take n s) then None
                   else Some (neg, hex,
                              mantissa st,
                              (if mantissa st \<noteq> 0 then dp3 - ndMant else 0), n))
      in
      (case s3 of
         c # s4 \<Rightarrow>
           if lower c = (if hex then CHR ''p'' else CHR ''e'') then
             (case s4 of
                [] \<Rightarrow> None
              | d # s5 \<Rightarrow>
                  let esign = (if d = CHR ''-'' then - 1 else 1);
                      s6 = (if d = CHR ''+'' \<or> d = CHR ''-'' then s5 else s4)
                  in
                  (case s6 of
                     [] \<Rightarrow> None
                   | f # _ \<Rightarrow>
                       if \<not> isDigit f then None
                       else
                         (case readExp 0 (underscores st) s6 of
                            (e, us, rest) \<Rightarrow> fin (dp2 + e * esign) us rest)))
           else if hex then None
           else fin dp2 (underscores st) s3
       | [] \<Rightarrow> if hex then None else fin dp2 (underscores st) s3))"

definition readFloat :: "string \<Rightarrow> (bool \<times> bool \<times> int \<times> int \<times> nat) option" where
  "readFloat s =
     (case s of
        [] \<Rightarrow> None
      | c0 # cs \<Rightarrow>
          let neg = (c0 = CHR ''-'');
              s1 = (if c0 = CHR ''+'' \<or> c0 = CHR ''-'' then cs else s);
              hex = hexPrefix s1;
              s2 = (if hex then drop 2 s1 else s1);
              r = readDigits (if hex then 16 else 10) noDigits s2
          in
          if \<not> sawdigits (fst r) then None
          else readFloatExp s neg hex (fst r) (snd r))"

definition ParseFloat :: "string \<Rightarrow> float64 \<times> error option" where
  "ParseFloat s =
     (case special s of
        Some (f, n) \<Rightarrow> if n = length s then (f, None) else (float64_zero, Some (ErrSyntax s))
      | None \<Rightarrow>
          (case readFloat s of
             None \<Rightarrow> (float64_zero, Some (ErrSyntax s))
           | Some (neg, hex, mant, ex, n) \<Rightarrow>
               if n \<noteq> length s then (float64_zero, Some (ErrSyntax s))
               else
                 let b = (if hex then 2 else 10);
                     (f, ovf) = (if 0 \<le> ex then round_float64 neg (mant * b ^ nat ex) 1
                                 else round_float64 neg mant (b ^ nat (- ex)))
                 in (f, if ovf then Some (ErrRange s) else None)))"

subsection \<open>\<^verbatim>\<open>strconv.ParseInt\<close> in base 10\<close>

text \<open>
  An optional sign and decimal digits, within the range of a 64-bit integer (Go's \<^verbatim>\<open>int\<close>
  on the 64-bit platforms, which the model assumes). Integers are written as \<open>int\<close>; the
  client does no arithmetic on them.
\<close>

fun digitsVal :: "int \<Rightarrow> string \<Rightarrow> int option" where
  "digitsVal acc [] = Some acc"
| "digitsVal acc (c # cs) =
     (if isDigit c then digitsVal (acc * 10 + (int (byte c) - 48)) cs else None)"

definition ParseInt :: "string \<Rightarrow> int option" where
  "ParseInt s =
     (case s of
        [] \<Rightarrow> None
      | c # cs \<Rightarrow>
          let neg = (c = CHR ''-'');
              ds = (if c = CHR ''+'' \<or> c = CHR ''-'' then cs else s)
          in if ds = [] then None
             else
               (case digitsVal 0 ds of
                  None \<Rightarrow> None
                | Some n \<Rightarrow>
                    if neg then (if n \<le> 2 ^ 63 then Some (- n) else None)
                    else (if n < 2 ^ 63 then Some n else None)))"

section \<open>Times\<close>

text \<open>
  A \<^verbatim>\<open>time.Time\<close> is written as the calendar date and clock time it shows in its own
  time zone, with that zone's offset from UTC in seconds. The zero value is the first
  instant of the year 1 in UTC.
\<close>

record Time =
  year :: int
  month :: int
  day :: int
  hour :: int
  minute :: int
  second :: int
  nanosecond :: int
  zone_offset :: int

definition Time_zero :: Time where
  "Time_zero = \<lparr>year = 1, month = 1, day = 1, hour = 0, minute = 0, second = 0,
                 nanosecond = 0, zone_offset = 0\<rparr>"

definition isLeap :: "int \<Rightarrow> bool" where
  "isLeap y = (y mod 4 = 0 \<and> (y mod 100 \<noteq> 0 \<or> y mod 400 = 0))"

definition daysIn :: "int \<Rightarrow> int \<Rightarrow> int" where
  "daysIn m y =
     (if m = 2 then (if isLeap y then 29 else 28)
      else if m = 4 \<or> m = 6 \<or> m = 9 \<or> m = 11 then 30 else 31)"

definition parseUint :: "string \<Rightarrow> int \<Rightarrow> int \<Rightarrow> int option" where
  "parseUint s lo hi =
     (case digitsVal 0 s of
        None \<Rightarrow> None
      | Some x \<Rightarrow> if x < lo \<or> hi < x then None else Some x)"

definition slice :: "string \<Rightarrow> nat \<Rightarrow> nat \<Rightarrow> string" where
  "slice s i j = take (j - i) (drop i s)"

text \<open>
  The nanoseconds of a fraction: its first nine digits, filled up with zeros.
\<close>

definition parseNanoseconds :: "string \<Rightarrow> int" where
  "parseNanoseconds ds =
     (case digitsVal 0 (take 9 ds) of
        None \<Rightarrow> 0
      | Some n \<Rightarrow> n * 10 ^ (9 - length (take 9 ds)))"

text \<open>
  \<open>parseRFC3339\<close> is the strict reading of an RFC 3339 timestamp
  (\<^verbatim>\<open>2006-01-02T15:04:05.999999999Z07:00\<close>) in Go's \<^verbatim>\<open>time\<close> package: fixed widths, every
  field in its range, an optional fraction of a second, and \<^verbatim>\<open>Z\<close> or a signed offset of
  hours and minutes.
\<close>

definition parseRFC3339 :: "string \<Rightarrow> Time option" where
  "parseRFC3339 s =
     (if length s < 19 then None
      else
        (case (parseUint (slice s 0 4) 0 9999, parseUint (slice s 5 7) 1 12) of
           (Some y, Some mo) \<Rightarrow>
             (case (parseUint (slice s 8 10) 1 (daysIn mo y), parseUint (slice s 11 13) 0 23,
                    parseUint (slice s 14 16) 0 59, parseUint (slice s 17 19) 0 59) of
                (Some d, Some h, Some mi, Some sec) \<Rightarrow>
                  if \<not> (s ! 4 = CHR ''-'' \<and> s ! 7 = CHR ''-'' \<and> s ! 10 = CHR ''T''
                         \<and> s ! 13 = CHR '':'' \<and> s ! 16 = CHR '':'') then None
                  else
                    let r0 = drop 19 s;
                        hasfrac = (case r0 of a # b # _ \<Rightarrow> a = CHR ''.'' \<and> isDigit b | _ \<Rightarrow> False);
                        fr = (if hasfrac then takeWhile isDigit (tl r0) else []);
                        ns = (if hasfrac then parseNanoseconds fr else 0);
                        r1 = (if hasfrac then drop (1 + length fr) r0 else r0);
                        t = \<lparr>year = y, month = mo, day = d, hour = h, minute = mi, second = sec,
                             nanosecond = ns, zone_offset = 0\<rparr>
                    in
                    if r1 = ''Z'' then Some t
                    else if length r1 \<noteq> 6 then None
                    else
                      (case (parseUint (slice r1 1 3) 0 23, parseUint (slice r1 4 6) 0 59) of
                         (Some hr, Some mm) \<Rightarrow>
                           if \<not> ((r1 ! 0 = CHR ''-'' \<or> r1 ! 0 = CHR ''+'') \<and> r1 ! 3 = CHR '':'')
                           then None
                           else Some (t\<lparr>zone_offset :=
                                          (if r1 ! 0 = CHR ''-'' then - 1 else 1) * ((hr * 60 + mm) * 60)\<rparr>)
                       | _ \<Rightarrow> None)
              | _ \<Rightarrow> None)
         | _ \<Rightarrow> None))"

text \<open>
  How \<^verbatim>\<open>time.Time\<close> reads other texts depends on the Go release (the releases since 1.20
  fall back to the lenient \<^verbatim>\<open>time.Parse\<close>), so the function that reads the bytes of a JSON
  string as a time is a parameter of the decoders below. \<open>strictTime\<close> is the instance
  that accepts the strict timestamps only; every release reads those as \<open>parseRFC3339\<close>
  does.
\<close>

type_synonym timeParser = "string \<Rightarrow> error + Time"

definition strictTime :: timeParser where
  "strictTime s = (case parseRFC3339 s of None \<Rightarrow> Inl (TimeParseError s) | Some t \<Rightarrow> Inr t)"

section \<open>Decoding JSON values into Go values\<close>

text \<open>
  \<^verbatim>\<open>encoding/json\<close> stores a JSON value into a Go value that already exists: what the JSON
  value does not mention stays as it was. A value of the wrong kind is an
  \<^verbatim>\<open>*json.UnmarshalTypeError\<close>: the decoder remembers the first one, goes on, and returns
  it at the end. An error of a type's own \<^verbatim>\<open>UnmarshalJSON\<close> method (here: of
  \<^verbatim>\<open>time.Time\<close>) stops the decoding at once. A decoder therefore takes the JSON value, the
  Go value so far and the error remembered so far, and returns either the error that
  stopped it or the new Go value and the error remembered.
\<close>

type_synonym saved = "error option"

type_synonym 'a decoder = "json \<Rightarrow> 'a \<Rightarrow> saved \<Rightarrow> error + 'a \<times> saved"

definition saveError :: "error \<Rightarrow> saved \<Rightarrow> saved" where
  "saveError e s = (case s of None \<Rightarrow> Some e | Some e0 \<Rightarrow> Some e0)"

definition jtype :: "json \<Rightarrow> string" where
  "jtype j =
     (case j of
        JNull \<Rightarrow> ''null''
      | JBool b \<Rightarrow> ''bool''
      | JNum n \<Rightarrow> ''number''
      | JStr r \<Rightarrow> ''string''
      | JArr es \<Rightarrow> ''array''
      | JObj ms \<Rightarrow> ''object'')"

definition typeError :: "json \<Rightarrow> string \<Rightarrow> 'a \<Rightarrow> saved \<Rightarrow> error + 'a \<times> saved" where
  "typeError j ty v s = Inr (v, saveError (UnmarshalTypeError (jtype j) ty) s)"

definition literal_string :: "string decoder" where
  "literal_string j v s =
     (case j of
        JNull \<Rightarrow> Inr (v, s)
      | JStr raw \<Rightarrow> Inr (unquote raw, s)
      | _ \<Rightarrow> typeError j ''string'' v s)"

definition literal_int :: "int decoder" where
  "literal_int j v s =
     (case j of
        JNull \<Rightarrow> Inr (v, s)
      | JNum n \<Rightarrow>
          (case ParseInt n of
             Some i \<Rightarrow> Inr (i, s)
           | None \<Rightarrow> Inr (v, saveError (UnmarshalTypeError (''number '' @ n) ''int'') s))
      | _ \<Rightarrow> typeError j ''int'' v s)"

definition literal_float64 :: "float64 decoder" where
  "literal_float64 j v s =
     (case j of
        JNull \<Rightarrow> Inr (v, s)
      | JNum n \<Rightarrow>
          (case ParseFloat n of
             (f, None) \<Rightarrow> Inr (f, s)
           | (f, Some e) \<Rightarrow> Inr (v, saveError (UnmarshalTypeError (''number '' @ n) ''float64'') s))
      | _ \<Rightarrow> typeError j ''float64'' v s)"

text \<open>
  \<^verbatim>\<open>time.Time\<close> decodes itself: \<^verbatim>\<open>null\<close> changes nothing, a string is read by the time
  parser from its bytes as they stand, and anything else is an error.
\<close>

definition Time_UnmarshalJSON :: "timeParser \<Rightarrow> Time decoder" where
  "Time_UnmarshalJSON tp j v s =
     (case j of
        JNull \<Rightarrow> Inr (v, s)
      | JStr raw \<Rightarrow> (case tp raw of Inl e \<Rightarrow> Inl e | Inr t \<Rightarrow> Inr (t, s))
      | _ \<Rightarrow> Inl (TimeParseError (jtype j)))"

text \<open>
  An array is stored into a slice element by element: into the element the slice already
  has at that index, or into a zero value. The slice ends up as long as the array.
  \<^verbatim>\<open>null\<close> empties the slice. (Go can also reuse an element left beyond the length of
  the slice by an earlier, longer array for the same key; that needs the same key three
  times in one object and is not modelled.)
\<close>

fun array_elems :: "'a \<Rightarrow> 'a decoder \<Rightarrow> json list \<Rightarrow> 'a list \<Rightarrow> saved \<Rightarrow> error + 'a list \<times> saved" where
  "array_elems z d [] old s = Inr ([], s)"
| "array_elems z d (j # js) old s =
     (case d j (case old of [] \<Rightarrow> z | x # _ \<Rightarrow> x) s of
        Inl e \<Rightarrow> Inl e
      | Inr (x', s') \<Rightarrow>
          (case array_elems z d js (tl old) s' of
             Inl e \<Rightarrow> Inl e
           | Inr (xs, s'') \<Rightarrow> Inr (x' # xs, s'')))"

definition array_slice :: "'a \<Rightarrow> string \<Rightarrow> 'a decoder \<Rightarrow> 'a list decoder" where
  "array_slice z ty d j v s =
     (case j of
        JNull \<Rightarrow> Inr ([], s)
      | JArr es \<Rightarrow> array_elems z d es v s
      | _ \<Rightarrow> typeError j ty v s)"

text \<open>
  A struct is described by its fields: the name from the \<^verbatim>\<open>json\<close> tag and the decoder that
  stores a value into the field. A key of the object selects the field with exactly that
  name, or else the first field whose name equals the key when letter case is ignored;
  for the ASCII names of this client, the folding of \<^verbatim>\<open>encoding/json\<close> also lets U+017F
  stand for \<^verbatim>\<open>s\<close> and U+212A for \<^verbatim>\<open>k\<close>. A key that selects no field is skipped. The
  members are stored in the order of the text, so a repeated key stores twice.
\<close>

fun equalFold :: "string \<Rightarrow> string \<Rightarrow> bool" where
  "equalFold [] [] = True"
| "equalFold [] (t # ts) = False"
| "equalFold (c # cs) [] = False"
| "equalFold (c # cs) (t # ts) =
     (if lower c = lower t then equalFold cs ts
      else if lower t = CHR ''s'' \<and> byte c = 197 then
        (case cs of c1 # cs1 \<Rightarrow> byte c1 = 191 \<and> equalFold cs1 ts | [] \<Rightarrow> False)
      else if lower t = CHR ''k'' \<and> byte c = 226 then
        (case cs of
           c1 # c2 # cs2 \<Rightarrow> byte c1 = 132 \<and> byte c2 = 170 \<and> equalFold cs2 ts
         | _ \<Rightarrow> False)
      else False)"

fun findFold :: "(string \<times> 'b) list \<Rightarrow> string \<Rightarrow> 'b option" where
  "findFold [] k = None"
| "findFold ((n, d) # fs) k = (if equalFold k n then Some d else findFold fs k)"

definition findField :: "(string \<times> 'b) list \<Rightarrow> string \<Rightarrow> 'b option" where
  "findField fs k = (case map_of fs k of Some d \<Rightarrow> Some d | None \<Rightarrow> findFold fs k)"

definition field :: "('a \<Rightarrow> 'b) \<Rightarrow> ('b \<Rightarrow> 'a \<Rightarrow> 'a) \<Rightarrow> 'b decoder \<Rightarrow> 'a decoder" where
  "field sel upd d j v s =
     (case d j (sel v) s of
        Inl e \<Rightarrow> Inl e
      | Inr (x, s') \<Rightarrow> Inr (upd x v, s'))"

fun object_members :: "(string \<times> 'a decoder) list \<Rightarrow> (string \<times> json) list \<Rightarrow> 'a \<Rightarrow> saved \<Rightarrow> error + 'a \<times> saved" where
  "object_members fs [] v s = Inr (v, s)"
| "object_members fs ((k, j) # ms) v s =
     (case findField fs k of
        None \<Rightarrow> object_members fs ms v s
      | Some d \<Rightarrow>
          (case d j v s of
             Inl e \<Rightarrow> Inl e
           | Inr (v', s') \<Rightarrow> object_members fs ms v' s'))"

definition object_struct :: "string \<Rightarrow> (string \<times> 'a decoder) list \<Rightarrow> 'a decoder" where
  "object_struct ty fs j v s =
     (case j of
        JNull \<Rightarrow> Inr (v, s)
      | JObj ms \<Rightarrow> object_members fs ms v s
      | _ \<Rightarrow> typeError j ty v s)"

text \<open>
  \<open>unmarshal\<close> is the end of every decoding: an error that stopped the decoder, or else
  the first type error remembered, or else the value.
\<close>

definition unmarshal :: "'a decoder \<Rightarrow> 'a \<Rightarrow> json \<Rightarrow> error + 'a" where
  "unmarshal d z j =
     (case d j z None of
        Inl e \<Rightarrow> Inl e
      | Inr (v, Some e) \<Rightarrow> Inl e
      | Inr (v, None) \<Rightarrow> Inr v)"

section \<open>The client's data\<close>

text \<open>
  Each Go struct is a record; a field \<^verbatim>\<open>F\<close> of the struct \<^verbatim>\<open>S\<close> is the field \<open>S_F\<close> of the
  record, since the structs share field names. With each struct that the client decodes
  come its zero value, the table of its fields (the name in its \<^verbatim>\<open>json\<close> tag and the
  decoder of its type, in the order of the struct) and its decoder.
\<close>

subsection \<open>Bet placement\<close>

record PlaceBetPayload =
  PlaceBetPayload_PriceChange :: string
  PlaceBetPayload_Currency :: string
  PlaceBetPayload_EventId :: string
  PlaceBetPayload_MarketURL :: string
  PlaceBetPayload_Price :: string
  PlaceBetPayload_UUID :: string
  PlaceBetPayload_Stake :: string

record PlaceBetResponse =
  PlaceBetResponse_ReferenceID :: string
  PlaceBetResponse_Price :: string
  PlaceBetResponse_EventID :: string
  PlaceBetResponse_MarketURL :: string
  PlaceBetResponse_Side :: string
  PlaceBetResponse_Currency :: string
  PlaceBetResponse_Stake :: string
  PlaceBetResponse_CreateTime :: string
  PlaceBetResponse_Status :: string
  PlaceBetResponse_ReturnAmount :: string
  PlaceBetResponse_EventName :: string
  PlaceBetResponse_SportsKey :: string
  PlaceBetResponse_CompetitionID :: string
  PlaceBetResponse_CategoryKey :: string
  PlaceBetResponse_CustomerReference :: string
  PlaceBetResponse_Error :: string

definition PlaceBetResponse_zero :: PlaceBetResponse where
  "PlaceBetResponse_zero =
     \<lparr>PlaceBetResponse_ReferenceID = [],
      PlaceBetResponse_Price = [],
      PlaceBetResponse_EventID = [],
      PlaceBetResponse_MarketURL = [],
      PlaceBetResponse_Side = [],
      PlaceBetResponse_Currency = [],
      PlaceBetResponse_Stake = [],
      PlaceBetResponse_CreateTime = [],
      PlaceBetResponse_Status = [],
      PlaceBetResponse_ReturnAmount = [],
      PlaceBetResponse_EventName = [],
      PlaceBetResponse_SportsKey = [],
      PlaceBetResponse_CompetitionID = [],
      PlaceBetResponse_CategoryKey = [],
      PlaceBetResponse_CustomerReference = [],
      PlaceBetResponse_Error = []\<rparr>"

definition PlaceBetResponse_fields :: "(string \<times> PlaceBetResponse decoder) list" where
  "PlaceBetResponse_fields =
     [(''referenceId'', field PlaceBetResponse_ReferenceID (\<lambda>x r. r\<lparr>PlaceBetResponse_ReferenceID := x\<rparr>) literal_string),
      (''price'', field PlaceBetResponse_Price (\<lambda>x r. r\<lparr>PlaceBetResponse_Price := x\<rparr>) literal_string),
      (''eventId'', field PlaceBetResponse_EventID (\<lambda>x r. r\<lparr>PlaceBetResponse_EventID := x\<rparr>) literal_string),
      (''marketUrl'', field PlaceBetResponse_MarketURL (\<lambda>x r. r\<lparr>PlaceBetResponse_MarketURL := x\<rparr>) literal_string),
      (''side'', field PlaceBetResponse_Side (\<lambda>x r. r\<lparr>PlaceBetResponse_Side := x\<rparr>) literal_string),
      (''currency'', field PlaceBetResponse_Currency (\<lambda>x r. r\<lparr>PlaceBetResponse_Currency := x\<rparr>) literal_string),
      (''stake'', field PlaceBetResponse_Stake (\<lambda>x r. r\<lparr>PlaceBetResponse_Stake := x\<rparr>) literal_string),
      (''createTime'', field PlaceBetResponse_CreateTime (\<lambda>x r. r\<lparr>PlaceBetResponse_CreateTime := x\<rparr>) literal_string),
      (''status'', field PlaceBetResponse_Status (\<lambda>x r. r\<lparr>PlaceBetResponse_Status := x\<rparr>) literal_string),
      (''returnAmount'', field PlaceBetResponse_ReturnAmount (\<lambda>x r. r\<lparr>PlaceBetResponse_ReturnAmount := x\<rparr>) literal_string),
      (''eventName'', field PlaceBetResponse_EventName (\<lambda>x r. r\<lparr>PlaceBetResponse_EventName := x\<rparr>) literal_string),
      (''sportsKey'', field PlaceBetResponse_SportsKey (\<lambda>x r. r\<lparr>PlaceBetResponse_SportsKey := x\<rparr>) literal_string),
      (''competitionId'', field PlaceBetResponse_CompetitionID (\<lambda>x r. r\<lparr>PlaceBetResponse_CompetitionID := x\<rparr>) literal_string),
      (''categoryKey'', field PlaceBetResponse_CategoryKey (\<lambda>x r. r\<lparr>PlaceBetResponse_CategoryKey := x\<rparr>) literal_string),
      (''customerReference'', field PlaceBetResponse_CustomerReference (\<lambda>x r. r\<lparr>PlaceBetResponse_CustomerReference := x\<rparr>) literal_string),
      (''error'', field PlaceBetResponse_Error (\<lambda>x r. r\<lparr>PlaceBetResponse_Error := x\<rparr>) literal_string)]"

definition PlaceBetResponse_decoder :: "PlaceBetResponse decoder" where
  "PlaceBetResponse_decoder = object_struct ''cloudbet.PlaceBetResponse'' (PlaceBetResponse_fields)"

subsection \<open>Balance\<close>

record Balance =
  Balance_Amount :: string

definition Balance_zero :: Balance where
  "Balance_zero =
     \<lparr>Balance_Amount = []\<rparr>"

definition Balance_fields :: "(string \<times> Balance decoder) list" where
  "Balance_fields =
     [(''amount'', field Balance_Amount (\<lambda>x r. r\<lparr>Balance_Amount := x\<rparr>) literal_string)]"

definition Balance_decoder :: "Balance decoder" where
  "Balance_decoder = object_struct ''cloudbet.Balance'' (Balance_fields)"

subsection \<open>Fixtures\<close>

record Sport =
  Sport_Name :: string
  Sport_Key :: string

definition Sport_zero :: Sport where
  "Sport_zero =
     \<lparr>Sport_Name = [],
      Sport_Key = []\<rparr>"

definition Sport_fields :: "(string \<times> Sport decoder) list" where
  "Sport_fields =
     [(''name'', field Sport_Name (\<lambda>x r. r\<lparr>Sport_Name := x\<rparr>) literal_string),
      (''key'', field Sport_Key (\<lambda>x r. r\<lparr>Sport_Key := x\<rparr>) literal_string)]"

definition Sport_decoder :: "Sport decoder" where
  "Sport_decoder = object_struct ''cloudbet.Sport'' (Sport_fields)"

record Home =
  Home_Name :: string
  Home_Key :: string
  Home_Abbreviation :: string
  Home_Nationality :: string
  Home_ResearchID :: string

definition Home_zero :: Home where
  "Home_zero =
     \<lparr>Home_Name = [],
      Home_Key = [],
      Home_Abbreviation = [],
      Home_Nationality = [],
      Home_ResearchID = []\<rparr>"

definition Home_fields :: "(string \<times> Home decoder) list" where
  "Home_fields =
     [(''name'', field Home_Name (\<lambda>x r. r\<lparr>Home_Name := x\<rparr>) literal_string),
      (''key'', field Home_Key (\<lambda>x r. r\<lparr>Home_Key := x\<rparr>) literal_string),
      (''abbreviation'', field Home_Abbreviation (\<lambda>x r. r\<lparr>Home_Abbreviation := x\<rparr>) literal_string),
      (''nationality'', field Home_Nationality (\<lambda>x r. r\<lparr>Home_Nationality := x\<rparr>) literal_string),
      (''researchId'', field Home_ResearchID (\<lambda>x r. r\<lparr>Home_ResearchID := x\<rparr>) literal_string)]"

definition Home_decoder :: "Home decoder" where
  "Home_decoder = object_struct ''cloudbet.Home'' (Home_fields)"

record Away =
  Away_Name :: string
  Away_Key :: string
  Away_Abbreviation :: string
  Away_Nationality :: string
  Away_ResearchID :: string

definition Away_zero :: Away where
  "Away_zero =
     \<lparr>Away_Name = [],
      Away_Key = [],
      Away_Abbreviation = [],
      Away_Nationality = [],
      Away_ResearchID = []\<rparr>"

definition Away_fields :: "(string \<times> Away decoder) list" where
  "Away_fields =
     [(''name'', field Away_Name (\<lambda>x r. r\<lparr>Away_Name := x\<rparr>) literal_string),
      (''key'', field Away_Key (\<lambda>x r. r\<lparr>Away_Key := x\<rparr>) literal_string),
      (''abbreviation'', field Away_Abbreviation (\<lambda>x r. r\<lparr>Away_Abbreviation := x\<rparr>) literal_string),
      (''nationality'', field Away_Nationality (\<lambda>x r. r\<lparr>Away_Nationality := x\<rparr>) literal_string),
      (''researchId'', field Away_ResearchID (\<lambda>x r. r\<lparr>Away_ResearchID := x\<rparr>) literal_string)]"

definition Away_decoder :: "Away decoder" where
  "Away_decoder = object_struct ''cloudbet.Away'' (Away_fields)"

text \<open>The structs \<^verbatim>\<open>Players\<close> and \<^verbatim>\<open>Markets\<close> have no fields.\<close>

datatype Players = Players

definition Players_zero :: Players where
  "Players_zero = Players"

definition Players_decoder :: "Players decoder" where
  "Players_decoder = object_struct ''cloudbet.Players'' []"

datatype Markets = Markets

definition Markets_zero :: Markets where
  "Markets_zero = Markets"

definition Markets_decoder :: "Markets decoder" where
  "Markets_decoder = object_struct ''cloudbet.Markets'' []"

record Events =
  Events_ID :: int
  Events_Home :: Home
  Events_Away :: Away
  Events_Players :: Players
  Events_Status :: string
  Events_Markets :: Markets
  Events_Name :: string
  Events_Key :: string
  Events_CutoffTime :: Time
  Events_Type :: string

definition Events_zero :: Events where
  "Events_zero =
     \<lparr>Events_ID = 0,
      Events_Home = Home_zero,
      Events_Away = Away_zero,
      Events_Players = Players_zero,
      Events_Status = [],
      Events_Markets = Markets_zero,
      Events_Name = [],
      Events_Key = [],
      Events_CutoffTime = Time_zero,
      Events_Type = []\<rparr>"

definition Events_fields :: "timeParser \<Rightarrow> (string \<times> Events decoder) list" where
  "Events_fields tp =
     [(''id'', field Events_ID (\<lambda>x r. r\<lparr>Events_ID := x\<rparr>) literal_int),
      (''home'', field Events_Home (\<lambda>x r. r\<lparr>Events_Home := x\<rparr>) Home_decoder),
      (''away'', field Events_Away (\<lambda>x r. r\<lparr>Events_Away := x\<rparr>) Away_decoder),
      (''players'', field Events_Players (\<lambda>x r. r\<lparr>Events_Players := x\<rparr>) Players_decoder),
      (''status'', field Events_Status (\<lambda>x r. r\<lparr>Events_Status := x\<rparr>) literal_string),
      (''markets'', field Events_Markets (\<lambda>x r. r\<lparr>Events_Markets := x\<rparr>) Markets_decoder),
      (''name'', field Events_Name (\<lambda>x r. r\<lparr>Events_Name := x\<rparr>) literal_string),
      (''key'', field Events_Key (\<lambda>x r. r\<lparr>Events_Key := x\<rparr>) literal_string),
      (''cutoffTime'', field Events_CutoffTime (\<lambda>x r. r\<lparr>Events_CutoffTime := x\<rparr>) (Time_UnmarshalJSON tp)),
      (''type'', field Events_Type (\<lambda>x r. r\<lparr>Events_Type := x\<rparr>) literal_string)]"

definition Events_decoder :: "timeParser \<Rightarrow> Events decoder" where
  "Events_decoder tp = object_struct ''cloudbet.Events'' (Events_fields tp)"

record Category =
  Category_Name :: string
  Category_Key :: string

definition Category_zero :: Category where
  "Category_zero =
     \<lparr>Category_Name = [],
      Category_Key = []\<rparr>"

definition Category_fields :: "(string \<times> Category decoder) list" where
  "Category_fields =
     [(''name'', field Category_Name (\<lambda>x r. r\<lparr>Category_Name := x\<rparr>) literal_string),
      (''key'', field Category_Key (\<lambda>x r. r\<lparr>Category_Key := x\<rparr>) literal_string)]"

definition Category_decoder :: "Category decoder" where
  "Category_decoder = object_struct ''cloudbet.Category'' (Category_fields)"

record Competitions =
  Competitions_Name :: string
  Competitions_Key :: string
  Competitions_Sport :: Sport
  Competitions_Events :: "Events list"
  Competitions_Category :: Category

definition Competitions_zero :: Competitions where
  "Competitions_zero =
     \<lparr>Competitions_Name = [],
      Competitions_Key = [],
      Competitions_Sport = Sport_zero,
      Competitions_Events = [],
      Competitions_Category = Category_zero\<rparr>"

definition Competitions_fields :: "timeParser \<Rightarrow> (string \<times> Competitions decoder) list" where
  "Competitions_fields tp =
     [(''name'', field Competitions_Name (\<lambda>x r. r\<lparr>Competitions_Name := x\<rparr>) literal_string),
      (''key'', field Competitions_Key (\<lambda>x r. r\<lparr>Competitions_Key := x\<rparr>) literal_string),
      (''sport'', field Competitions_Sport (\<lambda>x r. r\<lparr>Competitions_Sport := x\<rparr>) Sport_decoder),
      (''events'', field Competitions_Events (\<lambda>x r. r\<lparr>Competitions_Events := x\<rparr>) (array_slice Events_zero ''[]cloudbet.Events'' (Events_decoder tp))),
      (''category'', field Competitions_Category (\<lambda>x r. r\<lparr>Competitions_Category := x\<rparr>) Category_decoder)]"

definition Competitions_decoder :: "timeParser \<Rightarrow> Competitions decoder" where
  "Competitions_decoder tp = object_struct ''cloudbet.Competitions'' (Competitions_fields tp)"

record Fixtures =
  Fixtures_Competitions :: "Competitions list"

definition Fixtures_zero :: Fixtures where
  "Fixtures_zero =
     \<lparr>Fixtures_Competitions = []\<rparr>"

definition Fixtures_fields :: "timeParser \<Rightarrow> (string \<times> Fixtures decoder) list" where
  "Fixtures_fields tp =
     [(''competitions'', field Fixtures_Competitions (\<lambda>x r. r\<lparr>Fixtures_Competitions := x\<rparr>) (array_slice Competitions_zero ''[]cloudbet.Competitions'' (Competitions_decoder tp)))]"

definition Fixtures_decoder :: "timeParser \<Rightarrow> Fixtures decoder" where
  "Fixtures_decoder tp = object_struct ''cloudbet.Fixtures'' (Fixtures_fields tp)"

subsection \<open>The full event\<close>

record EventAway =
  EventAway_Abbreviation :: string
  EventAway_Key :: string
  EventAway_Name :: string
  EventAway_Nationality :: string

definition EventAway_zero :: EventAway where
  "EventAway_zero =
     \<lparr>EventAway_Abbreviation = [],
      EventAway_Key = [],
      EventAway_Name = [],
      EventAway_Nationality = []\<rparr>"

definition EventAway_fields :: "(string \<times> EventAway decoder) list" where
  "EventAway_fields =
     [(''abbreviation'', field EventAway_Abbreviation (\<lambda>x r. r\<lparr>EventAway_Abbreviation := x\<rparr>) literal_string),
      (''key'', field EventAway_Key (\<lambda>x r. r\<lparr>EventAway_Key := x\<rparr>) literal_string),
      (''name'', field EventAway_Name (\<lambda>x r. r\<lparr>EventAway_Name := x\<rparr>) literal_string),
      (''nationality'', field EventAway_Nationality (\<lambda>x r. r\<lparr>EventAway_Nationality := x\<rparr>) literal_string)]"

definition EventAway_decoder :: "EventAway decoder" where
  "EventAway_decoder = object_struct ''cloudbet.EventAway'' (EventAway_fields)"

record Competition =
  Competition_Category :: Category
  Competition_Key :: string
  Competition_Name :: string

definition Competition_zero :: Competition where
  "Competition_zero =
     \<lparr>Competition_Category = Category_zero,
      Competition_Key = [],
      Competition_Name = []\<rparr>"

definition Competition_fields :: "(string \<times> Competition decoder) list" where
  "Competition_fields =
     [(''category'', field Competition_Category (\<lambda>x r. r\<lparr>Competition_Category := x\<rparr>) Category_decoder),
      (''key'', field Competition_Key (\<lambda>x r. r\<lparr>Competition_Key := x\<rparr>) literal_string),
      (''name'', field Competition_Name (\<lambda>x r. r\<lparr>Competition_Name := x\<rparr>) literal_string)]"

definition Competition_decoder :: "Competition decoder" where
  "Competition_decoder = object_struct ''cloudbet.Competition'' (Competition_fields)"

record EventHome =
  EventHome_Abbreviation :: string
  EventHome_Key :: string
  EventHome_Name :: string
  EventHome_Nationality :: string

definition EventHome_zero :: EventHome where
  "EventHome_zero =
     \<lparr>EventHome_Abbreviation = [],
      EventHome_Key = [],
      EventHome_Name = [],
      EventHome_Nationality = []\<rparr>"

definition EventHome_fields :: "(string \<times> EventHome decoder) list" where
  "EventHome_fields =
     [(''abbreviation'', field EventHome_Abbreviation (\<lambda>x r. r\<lparr>EventHome_Abbreviation := x\<rparr>) literal_string),
      (''key'', field EventHome_Key (\<lambda>x r. r\<lparr>EventHome_Key := x\<rparr>) literal_string),
      (''name'', field EventHome_Name (\<lambda>x r. r\<lparr>EventHome_Name := x\<rparr>) literal_string),
      (''nationality'', field EventHome_Nationality (\<lambda>x r. r\<lparr>EventHome_Nationality := x\<rparr>) literal_string)]"

definition EventHome_decoder :: "EventHome decoder" where
  "EventHome_decoder = object_struct ''cloudbet.EventHome'' (EventHome_fields)"

record Selections =
  Selections_MaxStake :: float64
  Selections_MinStake :: float64
  Selections_Outcome :: string
  Selections_Params :: string
  Selections_Price :: float64
  Selections_Probability :: float64
  Selections_Side :: string
  Selections_Status :: string

definition Selections_zero :: Selections where
  "Selections_zero =
     \<lparr>Selections_MaxStake = float64_zero,
      Selections_MinStake = float64_zero,
      Selections_Outcome = [],
      Selections_Params = [],
      Selections_Price = float64_zero,
      Selections_Probability = float64_zero,
      Selections_Side = [],
      Selections_Status = []\<rparr>"

definition Selections_fields :: "(string \<times> Selections decoder) list" where
  "Selections_fields =
     [(''maxStake'', field Selections_MaxStake (\<lambda>x r. r\<lparr>Selections_MaxStake := x\<rparr>) literal_float64),
      (''minStake'', field Selections_MinStake (\<lambda>x r. r\<lparr>Selections_MinStake := x\<rparr>) literal_float64),
      (''outcome'', field Selections_Outcome (\<lambda>x r. r\<lparr>Selections_Outcome := x\<rparr>) literal_string),
      (''params'', field Selections_Params (\<lambda>x r. r\<lparr>Selections_Params := x\<rparr>) literal_string),
      (''price'', field Selections_Price (\<lambda>x r. r\<lparr>Selections_Price := x\<rparr>) literal_float64),
      (''probability'', field Selections_Probability (\<lambda>x r. r\<lparr>Selections_Probability := x\<rparr>) literal_float64),
      (''side'', field Selections_Side (\<lambda>x r. r\<lparr>Selections_Side := x\<rparr>) literal_string),
      (''status'', field Selections_Status (\<lambda>x r. r\<lparr>Selections_Status := x\<rparr>) literal_string)]"

definition Selections_decoder :: "Selections decoder" where
  "Selections_decoder = object_struct ''cloudbet.Selections'' (Selections_fields)"

record AdditionalProp1 =
  AdditionalProp1_Selections :: "Selections list"
  AdditionalProp1_Sequence :: int

definition AdditionalProp1_zero :: AdditionalProp1 where
  "AdditionalProp1_zero =
     \<lparr>AdditionalProp1_Selections = [],
      AdditionalProp1_Sequence = 0\<rparr>"

definition AdditionalProp1_fields :: "(string \<times> AdditionalProp1 decoder) list" where
  "AdditionalProp1_fields =
     [(''selections'', field AdditionalProp1_Selections (\<lambda>x r. r\<lparr>AdditionalProp1_Selections := x\<rparr>) (array_slice Selections_zero ''[]cloudbet.Selections'' Selections_decoder)),
      (''sequence'', field AdditionalProp1_Sequence (\<lambda>x r. r\<lparr>AdditionalProp1_Sequence := x\<rparr>) literal_int)]"

definition AdditionalProp1_decoder :: "AdditionalProp1 decoder" where
  "AdditionalProp1_decoder = object_struct ''cloudbet.AdditionalProp1'' (AdditionalProp1_fields)"

record AdditionalProp2 =
  AdditionalProp2_Layout :: string
  AdditionalProp2_Scores :: string

definition AdditionalProp2_zero :: AdditionalProp2 where
  "AdditionalProp2_zero =
     \<lparr>AdditionalProp2_Layout = [],
      AdditionalProp2_Scores = []\<rparr>"

definition AdditionalProp2_fields :: "(string \<times> AdditionalProp2 decoder) list" where
  "AdditionalProp2_fields =
     [(''layout'', field AdditionalProp2_Layout (\<lambda>x r. r\<lparr>AdditionalProp2_Layout := x\<rparr>) literal_string),
      (''scores'', field AdditionalProp2_Scores (\<lambda>x r. r\<lparr>AdditionalProp2_Scores := x\<rparr>) literal_string)]"

definition AdditionalProp2_decoder :: "AdditionalProp2 decoder" where
  "AdditionalProp2_decoder = object_struct ''cloudbet.AdditionalProp2'' (AdditionalProp2_fields)"

record AdditionalProp3 =
  AdditionalProp3_Layout :: string
  AdditionalProp3_Scores :: string

definition AdditionalProp3_zero :: AdditionalProp3 where
  "AdditionalProp3_zero =
     \<lparr>AdditionalProp3_Layout = [],
      AdditionalProp3_Scores = []\<rparr>"

definition AdditionalProp3_fields :: "(string \<times> AdditionalProp3 decoder) list" where
  "AdditionalProp3_fields =
     [(''layout'', field AdditionalProp3_Layout (\<lambda>x r. r\<lparr>AdditionalProp3_Layout := x\<rparr>) literal_string),
      (''scores'', field AdditionalProp3_Scores (\<lambda>x r. r\<lparr>AdditionalProp3_Scores := x\<rparr>) literal_string)]"

definition AdditionalProp3_decoder :: "AdditionalProp3 decoder" where
  "AdditionalProp3_decoder = object_struct ''cloudbet.AdditionalProp3'' (AdditionalProp3_fields)"

record EventMarkets =
  EventMarkets_AdditionalProp1 :: AdditionalProp1
  EventMarkets_AdditionalProp2 :: AdditionalProp2
  EventMarkets_AdditionalProp3 :: AdditionalProp3

definition EventMarkets_zero :: EventMarkets where
  "EventMarkets_zero =
     \<lparr>EventMarkets_AdditionalProp1 = AdditionalProp1_zero,
      EventMarkets_AdditionalProp2 = AdditionalProp2_zero,
      EventMarkets_AdditionalProp3 = AdditionalProp3_zero\<rparr>"

definition EventMarkets_fields :: "(string \<times> EventMarkets decoder) list" where
  "EventMarkets_fields =
     [(''additionalProp1'', field EventMarkets_AdditionalProp1 (\<lambda>x r. r\<lparr>EventMarkets_AdditionalProp1 := x\<rparr>) AdditionalProp1_decoder),
      (''additionalProp2'', field EventMarkets_AdditionalProp2 (\<lambda>x r. r\<lparr>EventMarkets_AdditionalProp2 := x\<rparr>) AdditionalProp2_decoder),
      (''additionalProp3'', field EventMarkets_AdditionalProp3 (\<lambda>x r. r\<lparr>EventMarkets_AdditionalProp3 := x\<rparr>) AdditionalProp3_decoder)]"

definition EventMarkets_decoder :: "EventMarkets decoder" where
  "EventMarkets_decoder = object_struct ''cloudbet.EventMarkets'' (EventMarkets_fields)"

record Opinion =
  Opinion_MarketKey :: string
  Opinion_Outcome :: string
  Opinion_Params :: string
  Opinion_Probability :: float64

definition Opinion_zero :: Opinion where
  "Opinion_zero =
     \<lparr>Opinion_MarketKey = [],
      Opinion_Outcome = [],
      Opinion_Params = [],
      Opinion_Probability = float64_zero\<rparr>"

definition Opinion_fields :: "(string \<times> Opinion decoder) list" where
  "Opinion_fields =
     [(''marketKey'', field Opinion_MarketKey (\<lambda>x r. r\<lparr>Opinion_MarketKey := x\<rparr>) literal_string),
      (''outcome'', field Opinion_Outcome (\<lambda>x r. r\<lparr>Opinion_Outcome := x\<rparr>) literal_string),
      (''params'', field Opinion_Params (\<lambda>x r. r\<lparr>Opinion_Params := x\<rparr>) literal_string),
      (''probability'', field Opinion_Probability (\<lambda>x r. r\<lparr>Opinion_Probability := x\<rparr>) literal_float64)]"

definition Opinion_decoder :: "Opinion decoder" where
  "Opinion_decoder = object_struct ''cloudbet.Opinion'' (Opinion_fields)"

record Opinions =
  Opinions_AdditionalProp1 :: AdditionalProp1
  Opinions_AdditionalProp2 :: AdditionalProp2
  Opinions_AdditionalProp3 :: AdditionalProp3

definition Opinions_zero :: Opinions where
  "Opinions_zero =
     \<lparr>Opinions_AdditionalProp1 = AdditionalProp1_zero,
      Opinions_AdditionalProp2 = AdditionalProp2_zero,
      Opinions_AdditionalProp3 = AdditionalProp3_zero\<rparr>"

definition Opinions_fields :: "(string \<times> Opinions decoder) list" where
  "Opinions_fields =
     [(''additionalProp1'', field Opinions_AdditionalProp1 (\<lambda>x r. r\<lparr>Opinions_AdditionalProp1 := x\<rparr>) AdditionalProp1_decoder),
      (''additionalProp2'', field Opinions_AdditionalProp2 (\<lambda>x r. r\<lparr>Opinions_AdditionalProp2 := x\<rparr>) AdditionalProp2_decoder),
      (''additionalProp3'', field Opinions_AdditionalProp3 (\<lambda>x r. r\<lparr>Opinions_AdditionalProp3 := x\<rparr>) AdditionalProp3_decoder)]"

definition Opinions_decoder :: "Opinions decoder" where
  "Opinions_decoder = object_struct ''cloudbet.Opinions'' (Opinions_fields)"

record Metadata =
  Metadata_Opinion :: "Opinion list"
  Metadata_Opinions :: Opinions

definition Metadata_zero :: Metadata where
  "Metadata_zero =
     \<lparr>Metadata_Opinion = [],
      Metadata_Opinions = Opinions_zero\<rparr>"

definition Metadata_fields :: "(string \<times> Metadata decoder) list" where
  "Metadata_fields =
     [(''opinion'', field Metadata_Opinion (\<lambda>x r. r\<lparr>Metadata_Opinion := x\<rparr>) (array_slice Opinion_zero ''[]cloudbet.Opinion'' Opinion_decoder)),
      (''opinions'', field Metadata_Opinions (\<lambda>x r. r\<lparr>Metadata_Opinions := x\<rparr>) Opinions_decoder)]"

definition Metadata_decoder :: "Metadata decoder" where
  "Metadata_decoder = object_struct ''cloudbet.Metadata'' (Metadata_fields)"

record Settlement =
  Settlement_AdditionalProp1 :: AdditionalProp1
  Settlement_AdditionalProp2 :: AdditionalProp2
  Settlement_AdditionalProp3 :: AdditionalProp3

definition Settlement_zero :: Settlement where
  "Settlement_zero =
     \<lparr>Settlement_AdditionalProp1 = AdditionalProp1_zero,
      Settlement_AdditionalProp2 = AdditionalProp2_zero,
      Settlement_AdditionalProp3 = AdditionalProp3_zero\<rparr>"

definition Settlement_fields :: "(string \<times> Settlement decoder) list" where
  "Settlement_fields =
     [(''additionalProp1'', field Settlement_AdditionalProp1 (\<lambda>x r. r\<lparr>Settlement_AdditionalProp1 := x\<rparr>) AdditionalProp1_decoder),
      (''additionalProp2'', field Settlement_AdditionalProp2 (\<lambda>x r. r\<lparr>Settlement_AdditionalProp2 := x\<rparr>) AdditionalProp2_decoder),
      (''additionalProp3'', field Settlement_AdditionalProp3 (\<lambda>x r. r\<lparr>Settlement_AdditionalProp3 := x\<rparr>) AdditionalProp3_decoder)]"

definition Settlement_decoder :: "Settlement decoder" where
  "Settlement_decoder = object_struct ''cloudbet.Settlement'' (Settlement_fields)"

record Event =
  Event_Away :: EventAway
  Event_Competition :: Competition
  Event_CutoffTime :: Time
  Event_EndTime :: Time
  Event_GradingDuration :: int
  Event_Home :: EventHome
  Event_ID :: int
  Event_Key :: string
  Event_Markets :: EventMarkets
  Event_Metadata :: Metadata
  Event_Name :: string
  Event_ResultedTime :: Time
  Event_Sequence :: int
  Event_Settlement :: Settlement
  Event_EventSport :: Sport
  Event_Status :: string
  Event_Type :: int

definition Event_zero :: Event where
  "Event_zero =
     \<lparr>Event_Away = EventAway_zero,
      Event_Competition = Competition_zero,
      Event_CutoffTime = Time_zero,
      Event_EndTime = Time_zero,
      Event_GradingDuration = 0,
      Event_Home = EventHome_zero,
      Event_ID = 0,
      Event_Key = [],
      Event_Markets = EventMarkets_zero,
      Event_Metadata = Metadata_zero,
      Event_Name = [],
      Event_ResultedTime = Time_zero,
      Event_Sequence = 0,
      Event_Settlement = Settlement_zero,
      Event_EventSport = Sport_zero,
      Event_Status = [],
      Event_Type = 0\<rparr>"

definition Event_fields :: "timeParser \<Rightarrow> (string \<times> Event decoder) list" where
  "Event_fields tp =
     [(''away'', field Event_Away (\<lambda>x r. r\<lparr>Event_Away := x\<rparr>) EventAway_decoder),
      (''competition'', field Event_Competition (\<lambda>x r. r\<lparr>Event_Competition := x\<rparr>) Competition_decoder),
      (''cutoffTime'', field Event_CutoffTime (\<lambda>x r. r\<lparr>Event_CutoffTime := x\<rparr>) (Time_UnmarshalJSON tp)),
      (''endTime'', field Event_EndTime (\<lambda>x r. r\<lparr>Event_EndTime := x\<rparr>) (Time_UnmarshalJSON tp)),
      (''gradingDuration'', field Event_GradingDuration (\<lambda>x r. r\<lparr>Event_GradingDuration := x\<rparr>) literal_int),
      (''home'', field Event_Home (\<lambda>x r. r\<lparr>Event_Home := x\<rparr>) EventHome_decoder),
      (''id'', field Event_ID (\<lambda>x r. r\<lparr>Event_ID := x\<rparr>) literal_int),
      (''key'', field Event_Key (\<lambda>x r. r\<lparr>Event_Key := x\<rparr>) literal_string),
      (''markets'', field Event_Markets (\<lambda>x r. r\<lparr>Event_Markets := x\<rparr>) EventMarkets_decoder),
      (''metadata'', field Event_Metadata (\<lambda>x r. r\<lparr>Event_Metadata := x\<rparr>) Metadata_decoder),
      (''name'', field Event_Name (\<lambda>x r. r\<lparr>Event_Name := x\<rparr>) literal_string),
      (''resultedTime'', field Event_ResultedTime (\<lambda>x r. r\<lparr>Event_ResultedTime := x\<rparr>) (Time_UnmarshalJSON tp)),
      (''sequence'', field Event_Sequence (\<lambda>x r. r\<lparr>Event_Sequence := x\<rparr>) literal_int),
      (''settlement'', field Event_Settlement (\<lambda>x r. r\<lparr>Event_Settlement := x\<rparr>) Settlement_decoder),
      (''sport'', field Event_EventSport (\<lambda>x r. r\<lparr>Event_EventSport := x\<rparr>) Sport_decoder),
      (''status'', field Event_Status (\<lambda>x r. r\<lparr>Event_Status := x\<rparr>) literal_string),
      (''type'', field Event_Type (\<lambda>x r. r\<lparr>Event_Type := x\<rparr>) literal_int)]"

definition Event_decoder :: "timeParser \<Rightarrow> Event decoder" where
  "Event_decoder tp = object_struct ''cloudbet.Event'' (Event_fields tp)"

section \<open>Requests, responses and the world outside\<close>

subsection \<open>Headers\<close>

text \<open>
  \<^verbatim>\<open>http.Header\<close> is a map from canonical header names to lists of values. \<^verbatim>\<open>Set\<close> and
  \<^verbatim>\<open>Get\<close> first bring the name into its canonical form: if every byte of the name may
  stand in a header name, the first letter and every letter after a hyphen become upper
  case and the other letters lower case.
\<close>

definition isUpper :: "char \<Rightarrow> bool" where
  "isUpper c = (65 \<le> byte c \<and> byte c \<le> 90)"

definition isLower :: "char \<Rightarrow> bool" where
  "isLower c = (97 \<le> byte c \<and> byte c \<le> 122)"

definition validHeaderFieldByte :: "char \<Rightarrow> bool" where
  "validHeaderFieldByte c = (isUpper c \<or> isLower c \<or> isDigit c \<or> c \<in> set ''!#$%&*+-.^_`|~'' \<or> byte c = 39)"

fun canonical :: "bool \<Rightarrow> string \<Rightarrow> string" where
  "canonical up [] = []"
| "canonical up (c # cs) =
     (let c' = (if up \<and> isLower c then char_of (byte c - 32)
                else if \<not> up \<and> isUpper c then char_of (byte c + 32)
                else c)
      in c' # canonical (c' = CHR ''-'') cs)"

definition CanonicalMIMEHeaderKey :: "string \<Rightarrow> string" where
  "CanonicalMIMEHeaderKey s = (if list_all validHeaderFieldByte s then canonical True s else s)"

type_synonym Header = "string \<rightharpoonup> string list"

definition Header_Set :: "Header \<Rightarrow> string \<Rightarrow> string \<Rightarrow> Header" where
  "Header_Set h k v = h(CanonicalMIMEHeaderKey k \<mapsto> [v])"

definition Header_Get :: "Header \<Rightarrow> string \<Rightarrow> string" where
  "Header_Get h k =
     (case h (CanonicalMIMEHeaderKey k) of
        None \<Rightarrow> []
      | Some vs \<Rightarrow> (case vs of [] \<Rightarrow> [] | v # _ \<Rightarrow> v))"

subsection \<open>Requests and responses\<close>

text \<open>
  A request keeps the URL text it was built from. A response has its status code, its
  status line (\<^verbatim>\<open>"400 Bad Request"\<close>) and its body.
\<close>

record Request =
  Method :: string
  URL :: string
  Header :: Header
  ReqBody :: "string option"

record Response =
  StatusCode :: int
  Status :: string
  Body :: body

definition Request_Header_Set :: "Request \<Rightarrow> string \<Rightarrow> string \<Rightarrow> Request" where
  "Request_Header_Set req k v = req\<lparr>Header := Header_Set (Header req) k v\<rparr>"

subsection \<open>The client\<close>

text \<open>
  \<^verbatim>\<open>APIClient\<close> holds the base URL, the API key and a pointer to an \<^verbatim>\<open>http.Client\<close>;
  \<open>None\<close> is the nil pointer. The constructor fixes the base URL and a timeout of ten
  seconds (a \<^verbatim>\<open>time.Duration\<close> counts nanoseconds).
\<close>

record http_Client =
  Timeout :: int

record APIClient =
  BaseURL :: string
  APIKey :: string
  Client :: "http_Client option"

definition NewAPIClient :: "string \<Rightarrow> APIClient" where
  "NewAPIClient apiKey =
     \<lparr>BaseURL = ''https://sports-api.cloudbet.com'',
      APIKey = apiKey,
      Client = Some \<lparr>Timeout = 10 * 1000000000\<rparr>\<rparr>"

subsection \<open>The environment of a call\<close>

text \<open>
  What a call finds outside the client is a parameter of the model: what
  \<^verbatim>\<open>json.Marshal\<close> returns for a payload, which URLs \<^verbatim>\<open>url.Parse\<close> rejects beyond the check
  written out in \<open>http_NewRequest\<close>, what the network answers to a request, what the
  clock shows in the local time zone, and how \<^verbatim>\<open>time.Time\<close> reads a JSON string. The
  theorems hold for every environment.
\<close>

record env =
  json_Marshal :: "PlaceBetPayload \<Rightarrow> error + string"
  url_Parse :: "string \<Rightarrow> error option"
  RoundTrip :: "Request \<Rightarrow> error + Response"
  time_Now :: Time
  time_Parse :: timeParser

text \<open>
  The state a call can change: the client the receiver points to, and the list of the
  requests handed to \<^verbatim>\<open>c.Client.Do\<close> so far, oldest first.
\<close>

record world =
  this :: APIClient
  wire :: "Request list"

text \<open>
  \<^verbatim>\<open>http.NewRequest\<close> parses the URL. \<^verbatim>\<open>url.Parse\<close> rejects a URL with an ASCII control
  byte before its first \<^verbatim>\<open>#\<close>; its other checks are the environment's. The methods the
  client passes are the constants \<^verbatim>\<open>GET\<close> and \<^verbatim>\<open>POST\<close>, which are valid.
\<close>

definition stringContainsCTLByte :: "string \<Rightarrow> bool" where
  "stringContainsCTLByte s = list_ex (\<lambda>c. byte c < 32 \<or> byte c = 127) s"

definition http_NewRequest :: "env \<Rightarrow> string \<Rightarrow> string \<Rightarrow> string option \<Rightarrow> error + Request" where
  "http_NewRequest E method url b =
     (if stringContainsCTLByte (takeWhile (\<lambda>c. c \<noteq> CHR ''#'') url)
      then Inl (URLError ''net/url: invalid control character in URL'')
      else
        (case url_Parse E url of
           Some e \<Rightarrow> Inl e
         | None \<Rightarrow> Inr \<lparr>Method = method, URL = url, Header = Map.empty, ReqBody = b\<rparr>))"

text \<open>
  \<^verbatim>\<open>c.Client.Do(req)\<close> dereferences the client's pointer, which panics when it is nil, and
  hands the request to the network.
\<close>

definition Client_Do :: "env \<Rightarrow> Request \<Rightarrow> world \<Rightarrow> (error + Response) outcome \<times> world" where
  "Client_Do E req w =
     (case Client (this w) of
        None \<Rightarrow> (Panicked, w)
      | Some hc \<Rightarrow> (Returned (RoundTrip E req), w\<lparr>wire := wire w @ [req]\<rparr>))"

subsection \<open>The two ways to decode a body\<close>

definition Decoder_Decode :: "'a decoder \<Rightarrow> 'a \<Rightarrow> body \<Rightarrow> error + 'a" where
  "Decoder_Decode d z b =
     (case readValue b of
        Inl e \<Rightarrow> Inl e
      | Inr j \<Rightarrow> unmarshal d z j)"

definition json_Unmarshal :: "'a decoder \<Rightarrow> 'a \<Rightarrow> string \<Rightarrow> error + 'a" where
  "json_Unmarshal d z dat =
     (case checkValid dat of
        Inl e \<Rightarrow> Inl e
      | Inr j \<Rightarrow> unmarshal d z j)"

subsection \<open>Formatting\<close>

function decimal :: "int \<Rightarrow> string" where
  "decimal n =
     (if n < 10 then [char_of (48 + n)]
      else decimal (n div 10) @ [char_of (48 + n mod 10)])"
  by pat_completeness auto
termination
  by (relation "measure nat") auto

text \<open>\<^verbatim>\<open>%d\<close> of an integer.\<close>

definition Sprintf_d :: "int \<Rightarrow> string" where
  "Sprintf_d n = (if n < 0 then CHR ''-'' # decimal (- n) else decimal n)"

text \<open>A number of the calendar, filled with zeros to a width.\<close>

definition appendInt :: "int \<Rightarrow> nat \<Rightarrow> string" where
  "appendInt x width =
     (let ds = decimal \<bar>x\<bar> in
      (if x < 0 then ''-'' else []) @ replicate (width - length ds) (CHR ''0'') @ ds)"

text \<open>\<^verbatim>\<open>t.Format("2006-01-02")\<close>: the calendar date of \<open>t\<close> in its own time zone.\<close>

definition Format_2006_01_02 :: "Time \<Rightarrow> string" where
  "Format_2006_01_02 t =
     appendInt (year t) 4 @ ''-'' @ appendInt (month t) 2 @ ''-'' @ appendInt (day t) 2"

section \<open>The operations\<close>

text \<open>
  Each operation takes the environment, its arguments and the world, and gives the outcome
  of the call and the world after it. A returned pair is Go's pair of a result and an
  error; a \<^verbatim>\<open>nil\<close> result pointer is \<open>None\<close>. (\<^verbatim>\<open>defer resp.Body.Close()\<close> has no effect on
  what the model records and is left out.)
\<close>

definition PlaceBet :: "env \<Rightarrow> PlaceBetPayload \<Rightarrow> world \<Rightarrow> (PlaceBetResponse option \<times> error option) outcome \<times> world" where
  "PlaceBet E payload w =
     (let c = this w in
      case json_Marshal E payload of
        Inl err \<Rightarrow> (Returned (None, Some err), w)
      | Inr b \<Rightarrow>
          (case http_NewRequest E ''POST'' (BaseURL c @ ''/pub/v3/bets/place'') (Some b) of
             Inl err \<Rightarrow> (Returned (None, Some err), w)
           | Inr req0 \<Rightarrow>
               let req1 = Request_Header_Set req0 ''X-API-Key'' (APIKey c);
                   req2 = Request_Header_Set req1 ''Content-Type'' ''application/json'';
                   req = Request_Header_Set req2 ''accept'' ''application/json''
               in
               (case Client_Do E req w of
                  (Panicked, w') \<Rightarrow> (Panicked, w')
                | (Returned (Inl err), w') \<Rightarrow> (Returned (None, Some err), w')
                | (Returned (Inr resp), w') \<Rightarrow>
                    (case Decoder_Decode PlaceBetResponse_decoder PlaceBetResponse_zero (Body resp) of
                       Inl err \<Rightarrow> (Returned (None, Some err), w')
                     | Inr plabeBet \<Rightarrow>
                         if StatusCode resp \<noteq> 200
                         then (Returned (Some plabeBet,
                                         Some (Errorf (''failed to place bet: '' @ Status resp))), w')
                         else (Returned (Some plabeBet, None), w')))))"

definition AccountBalance :: "env \<Rightarrow> string \<Rightarrow> world \<Rightarrow> (float64 \<times> error option) outcome \<times> world" where
  "AccountBalance E currency w =
     (let c = this w in
      case http_NewRequest E ''GET''
             (BaseURL c @ (''/pub/v1/account/currencies/'' @ currency @ ''/balance'')) None of
        Inl err \<Rightarrow> (Returned (float64_zero, Some err), w)
      | Inr req0 \<Rightarrow>
          let req = Request_Header_Set req0 ''X-API-Key'' (APIKey c) in
          (case Client_Do E req w of
             (Panicked, w') \<Rightarrow> (Panicked, w')
           | (Returned (Inl err), w') \<Rightarrow> (Returned (float64_zero, Some err), w')
           | (Returned (Inr resp), w') \<Rightarrow>
               (case Decoder_Decode Balance_decoder Balance_zero (Body resp) of
                  Inl err \<Rightarrow> (Returned (float64_zero, Some err), w')
                | Inr balance \<Rightarrow> (Returned (ParseFloat (Balance_Amount balance)), w'))))"

definition GetTodayFixtures :: "env \<Rightarrow> string \<Rightarrow> int \<Rightarrow> world \<Rightarrow> (string \<times> error option) outcome \<times> world" where
  "GetTodayFixtures E sport limit w =
     (let c = this w in
      case http_NewRequest E ''GET''
             (BaseURL c @ (''/pub/v2/odds/fixtures?sport='' @ sport @ ''&date=''
                @ Format_2006_01_02 (time_Now E) @ ''&players=false&limit='' @ Sprintf_d limit))
             None of
        Inl err \<Rightarrow> (Returned ([], Some err), w)
      | Inr req0 \<Rightarrow>
          let req1 = Request_Header_Set req0 ''X-API-Key'' (APIKey c);
              req = Request_Header_Set req1 ''accept'' ''application/json''
          in
          (case Client_Do E req w of
             (Panicked, w') \<Rightarrow> (Panicked, w')
           | (Returned (Inl err), w') \<Rightarrow> (Returned ([], Some err), w')
           | (Returned (Inr resp), w') \<Rightarrow>
               (case io_ReadAll (Body resp) of
                  Inl err \<Rightarrow> (Returned ([], Some err), w')
                | Inr b \<Rightarrow> (Returned (b, None), w'))))"

definition GetTodayFixturesJSON :: "env \<Rightarrow> string \<Rightarrow> int \<Rightarrow> world \<Rightarrow> (Fixtures option \<times> error option) outcome \<times> world" where
  "GetTodayFixturesJSON E sport limit w =
     (case GetTodayFixtures E sport limit w of
        (Panicked, w') \<Rightarrow> (Panicked, w')
      | (Returned (jsonBody, Some err), w') \<Rightarrow> (Returned (None, Some err), w')
      | (Returned (jsonBody, None), w') \<Rightarrow>
          (case json_Unmarshal (Fixtures_decoder (time_Parse E)) Fixtures_zero jsonBody of
             Inl err \<Rightarrow> (Returned (None, Some err), w')
           | Inr fixtures \<Rightarrow> (Returned (Some fixtures, None), w')))"

definition GetEvent :: "env \<Rightarrow> string \<Rightarrow> world \<Rightarrow> (string \<times> error option) outcome \<times> world" where
  "GetEvent E eid w =
     (let c = this w in
      case http_NewRequest E ''GET'' (BaseURL c @ (''/pub/v2/odds/events/'' @ eid)) None of
        Inl err \<Rightarrow> (Returned ([], Some err), w)
      | Inr req0 \<Rightarrow>
          let req = Request_Header_Set req0 ''X-API-Key'' (APIKey c) in
          (case Client_Do E req w of
             (Panicked, w') \<Rightarrow> (Panicked, w')
           | (Returned (Inl err), w') \<Rightarrow> (Returned ([], Some err), w')
           | (Returned (Inr resp), w') \<Rightarrow>
               (case io_ReadAll (Body resp) of
                  Inl err \<Rightarrow> (Returned ([], Some err), w')
                | Inr bodyBytes \<Rightarrow> (Returned (bodyBytes, None), w'))))"

definition GetEventJSON :: "env \<Rightarrow> string \<Rightarrow> world \<Rightarrow> (Event option \<times> error option) outcome \<times> world" where
  "GetEventJSON E eid w =
     (case GetEvent E eid w of
        (Panicked, w') \<Rightarrow> (Panicked, w')
      | (Returned (jsonBody, Some err), w') \<Rightarrow> (Returned (None, Some err), w')
      | (Returned (jsonBody, None), w') \<Rightarrow>
          (case json_Unmarshal (Event_decoder (time_Parse E)) Event_zero jsonBody of
             Inl err \<Rightarrow> (Returned (None, Some err), w')
           | Inr event \<Rightarrow> (Returned (Some event, None), w')))"

section \<open>Notions the claims are stated with\<close>

text \<open>
  The field of a struct that a key of a JSON object selects, by the name in the field's
  tag: the field with exactly that name, or else the first field whose name equals the key
  when letter case is ignored. \<open>members_for fs n ms\<close> are the values of the members of an
  object whose keys select the field named \<open>n\<close>.
\<close>

definition fieldOf :: "(string \<times> 'b) list \<Rightarrow> string \<Rightarrow> string option" where
  "fieldOf fs k =
     (if k \<in> set (map fst fs) then Some k
      else (case filter (equalFold k) (map fst fs) of [] \<Rightarrow> None | n # _ \<Rightarrow> Some n))"

definition members_for :: "(string \<times> 'b) list \<Rightarrow> string \<Rightarrow> (string \<times> json) list \<Rightarrow> json list" where
  "members_for fs n ms = map snd (filter (\<lambda>m. fieldOf fs (fst m) = Some n) ms)"

text \<open>A decoder keeps a component of a value when every decoding leaves it as it was.\<close>

definition keeps :: "('a \<Rightarrow> 'b) \<Rightarrow> 'a decoder \<Rightarrow> bool" where
  "keeps sel d = (\<forall>j v s v' s'. d j v s = Inr (v', s') \<longrightarrow> sel v' = sel v)"

text \<open>
  The parsed variant of an operation, as the specification words it: the raw variant
  followed by \<^verbatim>\<open>json.Unmarshal\<close> of the text it returns, with an error of the raw variant
  handed on.
\<close>

definition parsed_variant :: "'a decoder \<Rightarrow> 'a \<Rightarrow> (string \<times> error option) outcome \<times> world \<Rightarrow> ('a option \<times> error option) outcome \<times> world" where
  "parsed_variant d z raw =
     (case raw of
        (Panicked, w') \<Rightarrow> (Panicked, w')
      | (Returned (text, Some err), w') \<Rightarrow> (Returned (None, Some err), w')
      | (Returned (text, None), w') \<Rightarrow>
          (Returned (case json_Unmarshal d z text of
                       Inl err \<Rightarrow> (None, Some err)
                     | Inr v \<Rightarrow> (Some v, None)), w'))"

text \<open>
  A fixtures response with two competitions of one event each: the object of the response
  has one member for \<^verbatim>\<open>competitions\<close>, an array of two objects; each of them has one member
  for each of \<^verbatim>\<open>name\<close> and \<^verbatim>\<open>key\<close>, both strings, and one for \<^verbatim>\<open>events\<close>, an array of one
  object; and that object has one member for each of \<^verbatim>\<open>name\<close>, \<^verbatim>\<open>key\<close> and \<^verbatim>\<open>cutoffTime\<close>,
  all strings. The strings are the bytes between the quotes of the text. Other members
  may stand beside these.
\<close>

definition event_json :: "timeParser \<Rightarrow> json \<Rightarrow> string \<Rightarrow> string \<Rightarrow> string \<Rightarrow> bool" where
  "event_json tp j n k t =
     (case j of
        JObj ms \<Rightarrow>
          members_for (Events_fields tp) ''name'' ms = [JStr n]
          \<and> members_for (Events_fields tp) ''key'' ms = [JStr k]
          \<and> members_for (Events_fields tp) ''cutoffTime'' ms = [JStr t]
      | _ \<Rightarrow> False)"

definition competition_json :: "timeParser \<Rightarrow> json \<Rightarrow> string \<Rightarrow> string \<Rightarrow> json \<Rightarrow> bool" where
  "competition_json tp j n k e =
     (case j of
        JObj ms \<Rightarrow>
          members_for (Competitions_fields tp) ''name'' ms = [JStr n]
          \<and> members_for (Competitions_fields tp) ''key'' ms = [JStr k]
          \<and> members_for (Competitions_fields tp) ''events'' ms = [JArr [e]]
      | _ \<Rightarrow> False)"

definition fixtures_json :: "timeParser \<Rightarrow> json \<Rightarrow> json \<Rightarrow> json \<Rightarrow> bool" where
  "fixtures_json tp j c1 c2 =
     (case j of
        JObj ms \<Rightarrow> members_for (Fixtures_fields tp) ''competitions'' ms = [JArr [c1, c2]]
      | _ \<Rightarrow> False)"

section \<open>A concrete environment\<close>

text \<open>
  For running the operations on concrete inputs: an environment whose network answers every
  request with one given response, whose clock shows the evening of 9 March 2024 one hour
  east of UTC, whose \<^verbatim>\<open>url.Parse\<close> has no further objections, whose \<^verbatim>\<open>json.Marshal\<close>
  writes the payload's fields between quotes (which is the encoding of strings that
  need no escaping) and whose times are read strictly. The world holds a freshly
  constructed client and no requests.
\<close>

definition example_Marshal :: "PlaceBetPayload \<Rightarrow> error + string" where
  "example_Marshal p =
     Inr (''{\"acceptPriceChange\":\"'' @ PlaceBetPayload_PriceChange p
          @ ''\",\"currency\":\"'' @ PlaceBetPayload_Currency p
          @ ''\",\"eventId\":\"'' @ PlaceBetPayload_EventId p
          @ ''\",\"marketUrl\":\"'' @ PlaceBetPayload_MarketURL p
          @ ''\",\"price\":\"'' @ PlaceBetPayload_Price p
          @ ''\",\"referenceId\":\"'' @ PlaceBetPayload_UUID p
          @ ''\",\"stake\":\"'' @ PlaceBetPayload_Stake p @ ''\"}'')"

definition example_response :: "int \<Rightarrow> string \<Rightarrow> string \<Rightarrow> Response" where
  "example_response code status text =
     \<lparr>StatusCode = code, Status = status, Body = \<lparr>bytes = text, read_err = None\<rparr>\<rparr>"

definition example_env :: "Response \<Rightarrow> env" where
  "example_env resp =
     \<lparr>json_Marshal = example_Marshal,
      url_Parse = (\<lambda>u. None),
      RoundTrip = (\<lambda>req. Inr resp),
      time_Now = \<lparr>year = 2024, month = 3, day = 9, hour = 23, minute = 30, second = 0,
                  nanosecond = 0, zone_offset = 3600\<rparr>,
      time_Parse = strictTime\<rparr>"

definition example_world :: world where
  "example_world = \<lparr>this = NewAPIClient ''secret'', wire = []\<rparr>"

definition example_payload :: PlaceBetPayload where
  "example_payload =
     \<lparr>PlaceBetPayload_PriceChange = ''ALL'',
      PlaceBetPayload_Currency = ''PLAY_EUR'',
      PlaceBetPayload_EventId = ''24055338'',
      PlaceBetPayload_MarketURL = ''soccer.match_odds/away'',
      PlaceBetPayload_Price = ''1.50'',
      PlaceBetPayload_UUID = ''0b1c2d3e-0000-4000-8000-000000000001'',
      PlaceBetPayload_Stake = ''1''\<rparr>"

text \<open>A fixtures response with two competitions of one event each, and what it decodes to.\<close>

definition example_fixtures_text :: string where
  "example_fixtures_text =
     ''{\"competitions\":[{\"name\":\"Premier League\",\"key\":\"soccer-england-premier-league\",\"events\":[{\"id\":1,\"name\":\"Arsenal v Chelsea\",\"key\":\"arsenal-v-chelsea\",\"cutoffTime\":\"2024-03-09T18:30:00Z\"}]},{\"name\":\"La Liga\",\"key\":\"soccer-spain-laliga\",\"events\":[{\"id\":2,\"name\":\"Sevilla v Betis\",\"key\":\"sevilla-v-betis\",\"cutoffTime\":\"2024-03-10T20:00:00+01:00\"}]}]}''"

definition example_event1_json :: json where
  "example_event1_json =
     JObj [(''id'', JNum ''1''), (''name'', JStr ''Arsenal v Chelsea''),
           (''key'', JStr ''arsenal-v-chelsea''), (''cutoffTime'', JStr ''2024-03-09T18:30:00Z'')]"

definition example_event2_json :: json where
  "example_event2_json =
     JObj [(''id'', JNum ''2''), (''name'', JStr ''Sevilla v Betis''),
           (''key'', JStr ''sevilla-v-betis''), (''cutoffTime'', JStr ''2024-03-10T20:00:00+01:00'')]"

definition example_competition1_json :: json where
  "example_competition1_json =
     JObj [(''name'', JStr ''Premier League''), (''key'', JStr ''soccer-england-premier-league''),
           (''events'', JArr [example_event1_json])]"

definition example_competition2_json :: json where
  "example_competition2_json =
     JObj [(''name'', JStr ''La Liga''), (''key'', JStr ''soccer-spain-laliga''),
           (''events'', JArr [example_event2_json])]"

definition example_fixtures_json :: json where
  "example_fixtures_json =
     JObj [(''competitions'', JArr [example_competition1_json, example_competition2_json])]"

definition example_fixtures :: Fixtures where
  "example_fixtures =
     \<lparr>Fixtures_Competitions =
        [Competitions_zero
           \<lparr>Competitions_Name := ''Premier League'',
            Competitions_Key := ''soccer-england-premier-league'',
            Competitions_Events :=
              [Events_zero
                 \<lparr>Events_ID := 1, Events_Name := ''Arsenal v Chelsea'',
                  Events_Key := ''arsenal-v-chelsea'',
                  Events_CutoffTime :=
                    \<lparr>year = 2024, month = 3, day = 9, hour = 18, minute = 30, second = 0,
                     nanosecond = 0, zone_offset = 0\<rparr>\<rparr>]\<rparr>,
         Competitions_zero
           \<lparr>Competitions_Name := ''La Liga'',
            Competitions_Key := ''soccer-spain-laliga'',
            Competitions_Events :=
              [Events_zero
                 \<lparr>Events_ID := 2, Events_Name := ''Sevilla v Betis'',
                  Events_Key := ''sevilla-v-betis'',
                  Events_CutoffTime :=
                    \<lparr>year = 2024, month = 3, day = 10, hour = 20, minute = 0, second = 0,
                     nanosecond = 0, zone_offset = 3600\<rparr>\<rparr>]\<rparr>]\<rparr>"

text \<open>
  Two event responses that differ in one member of the markets object, under a key that
  names no field.
\<close>

definition example_event_text :: string where
  "example_event_text =
     ''{\"id\":7,\"markets\":{\"soccer.match_odds\":{\"selections\":[],\"sequence\":3},\"additionalProp1\":{\"selections\":[{\"price\":1.5}],\"sequence\":7}}}''"

definition example_event_text' :: string where
  "example_event_text' =
     ''{\"id\":7,\"markets\":{\"additionalProp1\":{\"selections\":[{\"price\":1.5}],\"sequence\":7}}}''"

definition example_additionalProp1_members :: "(string \<times> json) list" where
  "example_additionalProp1_members =
     [(''selections'', JArr [JObj [(''price'', JNum ''1.5'')]]), (''sequence'', JNum ''7'')]"

definition example_event :: Event where
  "example_event =
     Event_zero
       \<lparr>Event_ID := 7,
        Event_Markets :=
          EventMarkets_zero
            \<lparr>EventMarkets_AdditionalProp1 :=
               \<lparr>AdditionalProp1_Selections =
                  [Selections_zero\<lparr>Selections_Price := Float64 False 1023 0x8000000000000\<rparr>],
                AdditionalProp1_Sequence = 7\<rparr>\<rparr>\<rparr>"

section \<open>Facts about the operations\<close>

subsection \<open>The exchange of a call\<close>

text \<open>
  A call that hands a request to the network is recognised by the list of requests: it
  grows by that request. What \<open>PlaceBet\<close> returns then depends on the response only.
\<close>

lemma PlaceBet_exchange:
  assumes "PlaceBet E payload w = (out, w')"
      and "wire w' = wire w @ [req]"
      and "RoundTrip E req = Inr resp"
  shows "out =
     (case Decoder_Decode PlaceBetResponse_decoder PlaceBetResponse_zero (Body resp) of
        Inl err \<Rightarrow> Returned (None, Some err)
      | Inr r \<Rightarrow>
          if StatusCode resp \<noteq> 200
          then Returned (Some r, Some (Errorf (''failed to place bet: '' @ Status resp)))
          else Returned (Some r, None))"
  using assms
  by (auto simp: PlaceBet_def Client_Do_def Let_def
           split: sum.splits option.splits if_splits)

lemma PlaceBet_nil_error:
  assumes "PlaceBet E payload w = (Returned (r, None), w')"
  shows "\<exists>req resp x. wire w' = wire w @ [req] \<and> RoundTrip E req = Inr resp
           \<and> StatusCode resp = 200
           \<and> Decoder_Decode PlaceBetResponse_decoder PlaceBetResponse_zero (Body resp) = Inr x
           \<and> r = Some x"
  using assms
  by (auto simp: PlaceBet_def Client_Do_def Let_def
           split: sum.splits option.splits if_splits)

lemma canonical_keys:
  "CanonicalMIMEHeaderKey ''X-API-Key'' = ''X-Api-Key''"
  "CanonicalMIMEHeaderKey ''accept'' = ''Accept''"
  "CanonicalMIMEHeaderKey ''Content-Type'' = ''Content-Type''"
  by code_simp+

lemma raw_frame:
  "this (snd (GetTodayFixtures E sport limit w)) = this w"
  "this (snd (GetEvent E eid w)) = this w"
  by (auto simp: GetTodayFixtures_def GetEvent_def Client_Do_def Let_def
           split: sum.splits option.splits)


lemma GetTodayFixturesJSON_exchange:
  assumes "GetTodayFixturesJSON E sport limit w = (out, w')"
      and "wire w' = wire w @ [req]"
      and "RoundTrip E req = Inr resp"
  shows "out =
     (case io_ReadAll (Body resp) of
        Inl e \<Rightarrow> Returned (None, Some e)
      | Inr text \<Rightarrow>
          (case json_Unmarshal (Fixtures_decoder (time_Parse E)) Fixtures_zero text of
             Inl e \<Rightarrow> Returned (None, Some e)
           | Inr f \<Rightarrow> Returned (Some f, None)))"
  using assms
  by (auto simp: GetTodayFixturesJSON_def GetTodayFixtures_def Client_Do_def Let_def
           split: sum.splits option.splits prod.splits outcome.splits)

subsection \<open>Decoding the bodies of bet placements\<close>

lemma readValue_object:
  assumes "parse BeginValue [] (lex LStart (bytes b)) = Inr (JObj ms, rest)"
  shows "readValue b = Inr (JObj ms)"
proof -
  have "lex LStart (bytes b) \<noteq> []"
    using assms by (cases "lex LStart (bytes b)") auto
  then show ?thesis
    using assms by (simp add: readValue_def Let_def isContainer_def)
qed

lemma parse_insufficient_funds:
  "parse BeginValue [] (lex LStart ''{\"error\":\"insufficient funds\"}'')
     = Inr (JObj [(''error'', JStr ''insufficient funds'')], [])"
  by code_simp

lemma unmarshal_insufficient_funds:
  "unmarshal PlaceBetResponse_decoder PlaceBetResponse_zero
     (JObj [(''error'', JStr ''insufficient funds'')])
     = Inr (PlaceBetResponse_zero\<lparr>PlaceBetResponse_Error := ''insufficient funds''\<rparr>)"
  by code_simp

lemma Decode_insufficient_funds:
  assumes "bytes b = ''{\"error\":\"insufficient funds\"}''"
  shows "Decoder_Decode PlaceBetResponse_decoder PlaceBetResponse_zero b
           = Inr (PlaceBetResponse_zero\<lparr>PlaceBetResponse_Error := ''insufficient funds''\<rparr>)"
  using readValue_object [of b "[(''error'', JStr ''insufficient funds'')]" "[]"]
        parse_insufficient_funds assms
  by (simp add: Decoder_Decode_def unmarshal_insufficient_funds)

lemma Decode_not_json:
  "Decoder_Decode PlaceBetResponse_decoder PlaceBetResponse_zero
     \<lparr>bytes = ''<html>Bad Gateway</html>'', read_err = None\<rparr> = Inl SyntaxError"
  by code_simp

lemma Decode_empty_object:
  "Decoder_Decode PlaceBetResponse_decoder PlaceBetResponse_zero
     \<lparr>bytes = ''{}'', read_err = None\<rparr> = Inr PlaceBetResponse_zero"
  by code_simp

subsection \<open>Objects and the fields of a struct\<close>

lemma findFold_filter:
  "findFold fs k = (case filter (equalFold k) (map fst fs) of [] \<Rightarrow> None | n # _ \<Rightarrow> map_of fs n)"
proof (induction fs)
  case Nil
  then show ?case by simp
next
  case (Cons p fs)
  obtain a b where p: "p = (a, b)" by (cases p)
  show ?case
  proof (cases "equalFold k a")
    case True
    with p show ?thesis by simp
  next
    case False
    show ?thesis
    proof (cases "filter (equalFold k) (map fst fs)")
      case Nil
      with False p Cons.IH show ?thesis by simp
    next
      case (Cons n ns)
      then have "n \<in> set (filter (equalFold k) (map fst fs))" by simp
      then have "equalFold k n" by simp
      with False have "n \<noteq> a" by auto
      with False p Cons.IH Cons show ?thesis by simp
    qed
  qed
qed

lemma findField_fieldOf:
  "findField fs k = (case fieldOf fs k of None \<Rightarrow> None | Some n \<Rightarrow> map_of fs n)"
proof (cases "map_of fs k")
  case None
  then have "k \<notin> set (map fst fs)"
    by (simp add: map_of_eq_None_iff)
  with None show ?thesis
    by (simp add: findField_def fieldOf_def findFold_filter split: list.splits)
next
  case (Some d)
  then have "k \<in> set (map fst fs)"
    by (metis map_of_eq_None_iff option.distinct(1) set_map)
  with Some show ?thesis
    by (simp add: findField_def fieldOf_def)
qed

lemma object_members_append:
  "object_members fs (a @ b) v s =
     (case object_members fs a v s of
        Inl e \<Rightarrow> Inl e
      | Inr (v1, s1) \<Rightarrow> object_members fs b v1 s1)"
  by (induction a arbitrary: v s) (auto split: option.splits sum.splits)

lemma object_members_skip:
  assumes "findField fs k = None"
  shows "object_members fs (ms1 @ (k, j) # ms2) v s = object_members fs (ms1 @ ms2) v s"
  using assms by (simp add: object_members_append split: sum.splits)

lemma keeps_field:
  assumes "\<And>x v. sel (upd x v) = sel v"
  shows "keeps sel (field sel' upd d)"
  using assms by (auto simp: keeps_def field_def split: sum.splits)

lemma object_members_keeps:
  assumes "\<forall>(n', d') \<in> set fs. n' \<noteq> n \<longrightarrow> keeps sel d'"
      and "members_for fs n ms = []"
      and "object_members fs ms v s = Inr (v', s')"
  shows "sel v' = sel v"
  using assms(2,3)
proof (induction ms arbitrary: v s)
  case Nil
  then show ?case by simp
next
  case (Cons m ms)
  obtain k j where m: "m = (k, j)" by (cases m)
  from Cons.prems(1) m have nk: "fieldOf fs k \<noteq> Some n" and rest: "members_for fs n ms = []"
    by (auto simp: members_for_def split: if_splits)
  show ?case
  proof (cases "findField fs k")
    case None
    with Cons.prems(2) m have "object_members fs ms v s = Inr (v', s')" by simp
    with Cons.IH rest show ?thesis by blast
  next
    case (Some d)
    then obtain n' where n': "fieldOf fs k = Some n'" "map_of fs n' = Some d"
      by (auto simp: findField_fieldOf split: option.splits)
    with nk have "n' \<noteq> n" by auto
    moreover from n'(2) have "(n', d) \<in> set fs" by (rule map_of_SomeD)
    ultimately have k: "keeps sel d" using assms(1) by auto
    from Cons.prems(2) m Some obtain v1 s1 where
      d: "d j v s = Inr (v1, s1)" and r: "object_members fs ms v1 s1 = Inr (v', s')"
      by (auto split: sum.splits)
    from k d have "sel v1 = sel v" unfolding keeps_def by blast
    moreover from Cons.IH rest r have "sel v' = sel v1" by blast
    ultimately show ?thesis by simp
  qed
qed

lemma object_members_sole:
  assumes others: "\<forall>(n', d') \<in> set fs. n' \<noteq> n \<longrightarrow> keeps sel d'"
      and entry: "map_of fs n = Some (field sel upd d0)"
      and law: "\<And>x v. sel (upd x v) = x"
      and sole: "members_for fs n ms = [j0]"
      and run: "object_members fs ms v s = Inr (v', s')"
  shows "\<exists>s1 s2. d0 j0 (sel v) s1 = Inr (sel v', s2)"
proof -
  from sole have "filter (\<lambda>m. fieldOf fs (fst m) = Some n) ms \<noteq> []"
    by (auto simp: members_for_def)
  then obtain m rest where f: "filter (\<lambda>m. fieldOf fs (fst m) = Some n) ms = m # rest"
    by (cases "filter (\<lambda>m. fieldOf fs (fst m) = Some n) ms") auto
  with sole have rest: "rest = []" and sm: "snd m = j0"
    by (auto simp: members_for_def)
  from f obtain ms1 ms2 where
    ms: "ms = ms1 @ m # ms2" and
    n1: "\<forall>u \<in> set ms1. \<not> fieldOf fs (fst u) = Some n" and
    pm: "fieldOf fs (fst m) = Some n" and
    f2: "rest = filter (\<lambda>m. fieldOf fs (fst m) = Some n) ms2"
    by (auto simp: filter_eq_Cons_iff)
  have e1: "members_for fs n ms1 = []"
    using n1 by (auto simp: members_for_def filter_empty_conv)
  have e2: "members_for fs n ms2 = []"
    using f2 rest by (simp add: members_for_def)
  obtain k where m: "m = (k, j0)" using sm by (cases m) auto
  from run ms obtain v1 s1 where
    a: "object_members fs ms1 v s = Inr (v1, s1)" and
    b: "object_members fs (m # ms2) v1 s1 = Inr (v', s')"
    by (auto simp: object_members_append split: sum.splits)
  have k1: "sel v1 = sel v"
    using object_members_keeps [OF others e1 a] .
  from pm m entry have ff: "findField fs k = Some (field sel upd d0)"
    by (simp add: findField_fieldOf)
  from b m ff obtain v2 s2 where
    c: "field sel upd d0 j0 v1 s1 = Inr (v2, s2)" and
    d: "object_members fs ms2 v2 s2 = Inr (v', s')"
    by (auto split: sum.splits)
  from c obtain x where x: "d0 j0 (sel v1) s1 = Inr (x, s2)" and v2: "v2 = upd x v1"
    by (auto simp: field_def split: sum.splits)
  have "sel v' = sel v2"
    using object_members_keeps [OF others e2 d] .
  with v2 law have "sel v' = x" by simp
  with x k1 show ?thesis by auto
qed

subsection \<open>Decoding a fixtures response\<close>

lemma array_slice_two:
  assumes "array_slice z ty d (JArr [a, b]) [] s = Inr (xs, s')"
  shows "\<exists>x1 x2 sa. xs = [x1, x2] \<and> d a z s = Inr (x1, sa) \<and> d b z sa = Inr (x2, s')"
  using assms by (auto simp: array_slice_def split: sum.splits)

lemma array_slice_one:
  assumes "array_slice z ty d (JArr [a]) [] s = Inr (xs, s')"
  shows "\<exists>x1. xs = [x1] \<and> d a z s = Inr (x1, s')"
  using assms by (auto simp: array_slice_def split: sum.splits)

lemma literal_string_JStr:
  "literal_string (JStr n) v s = Inr (x, s') \<Longrightarrow> x = unquote n"
  by (simp add: literal_string_def)

lemma Time_UnmarshalJSON_JStr:
  "Time_UnmarshalJSON tp (JStr t) v s = Inr (x, s') \<Longrightarrow> tp t = Inr x"
  by (auto simp: Time_UnmarshalJSON_def split: sum.splits)

lemma event_decoded:
  assumes shape: "event_json tp e en ek t"
      and run: "Events_decoder tp e Events_zero s = Inr (y, s')"
  shows "Events_Name y = unquote en \<and> Events_Key y = unquote ek \<and> tp t = Inr (Events_CutoffTime y)"
proof -
  from shape obtain ms where e: "e = JObj ms"
    and mn: "members_for (Events_fields tp) ''name'' ms = [JStr en]"
    and mk: "members_for (Events_fields tp) ''key'' ms = [JStr ek]"
    and mt: "members_for (Events_fields tp) ''cutoffTime'' ms = [JStr t]"
    by (auto simp: event_json_def split: json.splits)
  from run e have om: "object_members (Events_fields tp) ms Events_zero s = Inr (y, s')"
    by (simp add: Events_decoder_def object_struct_def)
  have "\<exists>s1 s2. literal_string (JStr en) (Events_Name Events_zero) s1 = Inr (Events_Name y, s2)"
    by (rule object_members_sole [where upd = "\<lambda>x r. r\<lparr>Events_Name := x\<rparr>", OF _ _ _ mn om])
       (simp_all add: Events_fields_def keeps_field)
  moreover
  have "\<exists>s1 s2. literal_string (JStr ek) (Events_Key Events_zero) s1 = Inr (Events_Key y, s2)"
    by (rule object_members_sole [where upd = "\<lambda>x r. r\<lparr>Events_Key := x\<rparr>", OF _ _ _ mk om])
       (simp_all add: Events_fields_def keeps_field)
  moreover
  have "\<exists>s1 s2. Time_UnmarshalJSON tp (JStr t) (Events_CutoffTime Events_zero) s1
                   = Inr (Events_CutoffTime y, s2)"
    by (rule object_members_sole [where upd = "\<lambda>x r. r\<lparr>Events_CutoffTime := x\<rparr>", OF _ _ _ mt om])
       (simp_all add: Events_fields_def keeps_field)
  ultimately show ?thesis
    by (auto dest: literal_string_JStr Time_UnmarshalJSON_JStr)
qed

lemma competition_decoded:
  assumes shape: "competition_json tp c n k e"
      and ev: "event_json tp e en ek t"
      and run: "Competitions_decoder tp c Competitions_zero s = Inr (x, s')"
  shows "Competitions_Name x = unquote n \<and> Competitions_Key x = unquote k
         \<and> (\<exists>y. Competitions_Events x = [y] \<and> Events_Name y = unquote en
                  \<and> Events_Key y = unquote ek \<and> tp t = Inr (Events_CutoffTime y))"
proof -
  from shape obtain ms where c: "c = JObj ms"
    and mn: "members_for (Competitions_fields tp) ''name'' ms = [JStr n]"
    and mk: "members_for (Competitions_fields tp) ''key'' ms = [JStr k]"
    and me: "members_for (Competitions_fields tp) ''events'' ms = [JArr [e]]"
    by (auto simp: competition_json_def split: json.splits)
  from run c have om: "object_members (Competitions_fields tp) ms Competitions_zero s = Inr (x, s')"
    by (simp add: Competitions_decoder_def object_struct_def)
  have "\<exists>s1 s2. literal_string (JStr n) (Competitions_Name Competitions_zero) s1
                  = Inr (Competitions_Name x, s2)"
    by (rule object_members_sole [where upd = "\<lambda>x r. r\<lparr>Competitions_Name := x\<rparr>", OF _ _ _ mn om])
       (simp_all add: Competitions_fields_def keeps_field)
  then have 1: "Competitions_Name x = unquote n"
    by (auto dest: literal_string_JStr)
  have "\<exists>s1 s2. literal_string (JStr k) (Competitions_Key Competitions_zero) s1
                  = Inr (Competitions_Key x, s2)"
    by (rule object_members_sole [where upd = "\<lambda>x r. r\<lparr>Competitions_Key := x\<rparr>", OF _ _ _ mk om])
       (simp_all add: Competitions_fields_def keeps_field)
  then have 2: "Competitions_Key x = unquote k"
    by (auto dest: literal_string_JStr)
  have "\<exists>s1 s2. array_slice Events_zero ''[]cloudbet.Events'' (Events_decoder tp) (JArr [e])
                   (Competitions_Events Competitions_zero) s1 = Inr (Competitions_Events x, s2)"
    by (rule object_members_sole [where upd = "\<lambda>x r. r\<lparr>Competitions_Events := x\<rparr>", OF _ _ _ me om])
       (simp_all add: Competitions_fields_def keeps_field)
  then obtain s1 s2 where
    "array_slice Events_zero ''[]cloudbet.Events'' (Events_decoder tp) (JArr [e]) [] s1
       = Inr (Competitions_Events x, s2)"
    by (auto simp: Competitions_zero_def)
  then obtain y where y: "Competitions_Events x = [y]"
    and dy: "Events_decoder tp e Events_zero s1 = Inr (y, s2)"
    by (blast dest: array_slice_one)
  from event_decoded [OF ev dy] y 1 2 show ?thesis
    by simp
qed

lemma fixtures_decoded:
  assumes shape: "fixtures_json tp j c1 c2"
      and run: "unmarshal (Fixtures_decoder tp) Fixtures_zero j = Inr f"
  shows "\<exists>x1 x2 sa sb sc.
           Fixtures_Competitions f = [x1, x2]
           \<and> Competitions_decoder tp c1 Competitions_zero sa = Inr (x1, sb)
           \<and> Competitions_decoder tp c2 Competitions_zero sb = Inr (x2, sc)"
proof -
  from shape obtain ms where j: "j = JObj ms"
    and mc: "members_for (Fixtures_fields tp) ''competitions'' ms = [JArr [c1, c2]]"
    by (auto simp: fixtures_json_def split: json.splits)
  from run j have om: "object_members (Fixtures_fields tp) ms Fixtures_zero None = Inr (f, None)"
    by (auto simp: unmarshal_def Fixtures_decoder_def object_struct_def split: sum.splits option.splits)
  have "\<exists>s1 s2. array_slice Competitions_zero ''[]cloudbet.Competitions'' (Competitions_decoder tp)
                   (JArr [c1, c2]) (Fixtures_Competitions Fixtures_zero) s1
                  = Inr (Fixtures_Competitions f, s2)"
    by (rule object_members_sole [where upd = "\<lambda>x r. r\<lparr>Fixtures_Competitions := x\<rparr>", OF _ _ _ mc om])
       (simp_all add: Fixtures_fields_def keeps_field)
  then obtain s1 s2 where
    "array_slice Competitions_zero ''[]cloudbet.Competitions'' (Competitions_decoder tp)
       (JArr [c1, c2]) [] s1 = Inr (Fixtures_Competitions f, s2)"
    by (auto simp: Fixtures_zero_def)
  then show ?thesis
    by (blast dest: array_slice_two)
qed

lemma GetTodayFixturesJSON_success:
  assumes "GetTodayFixturesJSON E sport limit w = (Returned (Some f, err), w')"
      and "wire w' = wire w @ [req]"
      and "RoundTrip E req = Inr resp"
  shows "json_Unmarshal (Fixtures_decoder (time_Parse E)) Fixtures_zero (bytes (Body resp)) = Inr f"
  using assms
  by (auto simp: GetTodayFixturesJSON_def GetTodayFixtures_def Client_Do_def Let_def io_ReadAll_def
           split: sum.splits option.splits prod.splits outcome.splits)

subsection \<open>Balance\<close>
















subsection \<open>Decoding an event\<close>

lemma GetEventJSON_exchange:
  assumes "GetEventJSON E eid w = (out, w')"
      and "wire w' = wire w @ [req]"
      and "RoundTrip E req = Inr resp"
  shows "out =
     (case io_ReadAll (Body resp) of
        Inl e \<Rightarrow> Returned (None, Some e)
      | Inr text \<Rightarrow>
          (case json_Unmarshal (Event_decoder (time_Parse E)) Event_zero text of
             Inl e \<Rightarrow> Returned (None, Some e)
           | Inr ev \<Rightarrow> Returned (Some ev, None)))"
  using assms
  by (auto simp: GetEventJSON_def GetEvent_def Client_Do_def Let_def
           split: sum.splits option.splits prod.splits outcome.splits)

lemma object_members_cong:
  assumes "\<And>d. findField fs mk = Some d \<Longrightarrow> d j1 = d j2"
  shows "object_members fs (t1 @ (mk, j1) # t2) v s = object_members fs (t1 @ (mk, j2) # t2) v s"
  using assms by (simp add: object_members_append split: sum.splits option.splits)

lemma EventMarkets_decoder_skip:
  assumes "findField EventMarkets_fields k = None"
  shows "EventMarkets_decoder (JObj (ms1 @ (k, v) # ms2)) = EventMarkets_decoder (JObj (ms1 @ ms2))"
  using assms
  by (intro ext) (simp add: EventMarkets_decoder_def object_struct_def object_members_skip)

lemma Event_markets_field:
  "findField (Event_fields tp) ''markets''
     = Some (field Event_Markets (\<lambda>x r. r\<lparr>Event_Markets := x\<rparr>) EventMarkets_decoder)"
  by (simp add: findField_def Event_fields_def)

lemma Event_unmarshal_skip:
  assumes "findField EventMarkets_fields k = None"
  shows "unmarshal (Event_decoder tp) Event_zero
           (JObj (t1 @ (''markets'', JObj (ms1 @ (k, v) # ms2)) # t2))
       = unmarshal (Event_decoder tp) Event_zero
           (JObj (t1 @ (''markets'', JObj (ms1 @ ms2)) # t2))"
proof -
  have "object_members (Event_fields tp) (t1 @ (''markets'', JObj (ms1 @ (k, v) # ms2)) # t2) Event_zero None
      = object_members (Event_fields tp) (t1 @ (''markets'', JObj (ms1 @ ms2)) # t2) Event_zero None"
  proof (rule object_members_cong)
    fix d
    assume "findField (Event_fields tp) ''markets'' = Some d"
    then have d: "d = field Event_Markets (\<lambda>x r. r\<lparr>Event_Markets := x\<rparr>) EventMarkets_decoder"
      by (simp add: Event_markets_field)
    show "d (JObj (ms1 @ (k, v) # ms2)) = d (JObj (ms1 @ ms2))"
      unfolding d by (intro ext) (simp add: field_def EventMarkets_decoder_skip [OF assms])
  qed
  then show ?thesis
    by (simp add: unmarshal_def Event_decoder_def object_struct_def)
qed

lemma array_elems_length:
  "array_elems z d es old s = Inr (xs, s') \<Longrightarrow> length xs = length es"
  by (induction es arbitrary: old s xs) (auto split: sum.splits)

lemma array_slice_length:
  "array_slice z ty d (JArr es) v s = Inr (xs, s') \<Longrightarrow> length xs = length es"
  by (auto simp: array_slice_def dest: array_elems_length)

lemma literal_int_JNum:
  "literal_int (JNum n) v s = Inr (x, s') \<Longrightarrow> ParseInt n = Some i \<Longrightarrow> x = i"
  by (simp add: literal_int_def)

lemma AdditionalProp1_decoded:
  assumes seq: "members_for AdditionalProp1_fields ''sequence'' ps = [JNum n]"
      and sel: "members_for AdditionalProp1_fields ''selections'' ps = [JArr es]"
      and int: "ParseInt n = Some i"
      and run: "AdditionalProp1_decoder (JObj ps) v s = Inr (ap, s')"
  shows "AdditionalProp1_Sequence ap = i \<and> length (AdditionalProp1_Selections ap) = length es"
proof -
  from run have om: "object_members AdditionalProp1_fields ps v s = Inr (ap, s')"
    by (simp add: AdditionalProp1_decoder_def object_struct_def)
  have "\<exists>s1 s2. literal_int (JNum n) (AdditionalProp1_Sequence v) s1
                  = Inr (AdditionalProp1_Sequence ap, s2)"
    by (rule object_members_sole [where upd = "\<lambda>x r. r\<lparr>AdditionalProp1_Sequence := x\<rparr>", OF _ _ _ seq om])
       (simp_all add: AdditionalProp1_fields_def keeps_field)
  with int have 1: "AdditionalProp1_Sequence ap = i"
    by (auto dest: literal_int_JNum)
  have "\<exists>s1 s2. array_slice Selections_zero ''[]cloudbet.Selections'' Selections_decoder (JArr es)
                   (AdditionalProp1_Selections v) s1 = Inr (AdditionalProp1_Selections ap, s2)"
    by (rule object_members_sole [where upd = "\<lambda>x r. r\<lparr>AdditionalProp1_Selections := x\<rparr>", OF _ _ _ sel om])
       (simp_all add: AdditionalProp1_fields_def keeps_field)
  then have "length (AdditionalProp1_Selections ap) = length es"
    by (auto dest: array_slice_length)
  with 1 show ?thesis by simp
qed

lemma Event_markets_decoded:
  assumes mk: "members_for (Event_fields tp) ''markets'' mems = [JObj ms]"
      and ap: "members_for EventMarkets_fields ''additionalProp1'' ms = [JObj ps]"
      and seq: "members_for AdditionalProp1_fields ''sequence'' ps = [JNum n]"
      and sel: "members_for AdditionalProp1_fields ''selections'' ps = [JArr es]"
      and int: "ParseInt n = Some i"
      and run: "unmarshal (Event_decoder tp) Event_zero (JObj mems) = Inr ev"
  shows "AdditionalProp1_Sequence (EventMarkets_AdditionalProp1 (Event_Markets ev)) = i
       \<and> length (AdditionalProp1_Selections (EventMarkets_AdditionalProp1 (Event_Markets ev)))
           = length es"
proof -
  from run have om: "object_members (Event_fields tp) mems Event_zero None = Inr (ev, None)"
    by (auto simp: unmarshal_def Event_decoder_def object_struct_def split: sum.splits option.splits)
  have "\<exists>s1 s2. EventMarkets_decoder (JObj ms) (Event_Markets Event_zero) s1
                  = Inr (Event_Markets ev, s2)"
    by (rule object_members_sole [where upd = "\<lambda>x r. r\<lparr>Event_Markets := x\<rparr>", OF _ _ _ mk om])
       (simp_all add: Event_fields_def keeps_field)
  then obtain s1 s2 where
    "object_members EventMarkets_fields ms (Event_Markets Event_zero) s1 = Inr (Event_Markets ev, s2)"
    by (auto simp: EventMarkets_decoder_def object_struct_def)
  then have "\<exists>s1 s2. AdditionalProp1_decoder (JObj ps)
                        (EventMarkets_AdditionalProp1 (Event_Markets Event_zero)) s1
                  = Inr (EventMarkets_AdditionalProp1 (Event_Markets ev), s2)"
    by (intro object_members_sole [where upd = "\<lambda>x r. r\<lparr>EventMarkets_AdditionalProp1 := x\<rparr>", OF _ _ _ ap])
       (simp_all add: EventMarkets_fields_def keeps_field)
  then show ?thesis
    using AdditionalProp1_decoded [OF seq sel int] by blast
qed

subsection \<open>The examples\<close>

lemma example_http_NewRequest:
  "\<not> stringContainsCTLByte (takeWhile (\<lambda>c. c \<noteq> CHR ''#'') url) \<Longrightarrow>
   http_NewRequest (example_env resp) m url b =
     Inr \<lparr>Method = m, URL = url, Header = Map.empty, ReqBody = b\<rparr>"
  by (simp add: http_NewRequest_def example_env_def)

lemma example_PlaceBet_URL:
  "\<not> stringContainsCTLByte (takeWhile (\<lambda>c. c \<noteq> CHR ''#'')
        (BaseURL (this example_world) @ ''/pub/v3/bets/place''))"
  by code_simp

lemma example_PlaceBet_wire:
  "\<exists>req. wire (snd (PlaceBet (example_env resp) payload example_world)) = wire example_world @ [req]"
  using example_PlaceBet_URL
  by (simp add: PlaceBet_def Client_Do_def Let_def example_http_NewRequest
        example_world_def NewAPIClient_def example_env_def example_Marshal_def http_NewRequest_def
      split: sum.splits)



lemma example_fixtures_URL:
  "BaseURL (this example_world) @ ''/pub/v2/odds/fixtures?sport='' @ ''soccer'' @ ''&date=''
     @ Format_2006_01_02 (time_Now (example_env resp)) @ ''&players=false&limit='' @ Sprintf_d 10
   = ''https://sports-api.cloudbet.com/pub/v2/odds/fixtures?sport=soccer&date=2024-03-09&players=false&limit=10''"
  by code_simp

lemma example_fixtures_URL_ok:
  "\<not> stringContainsCTLByte (takeWhile (\<lambda>c. c \<noteq> CHR ''#'')
      ''https://sports-api.cloudbet.com/pub/v2/odds/fixtures?sport=soccer&date=2024-03-09&players=false&limit=10'')"
  by code_simp

lemma example_GetTodayFixtures_NewRequest:
  "http_NewRequest (example_env resp) ''GET''
     (BaseURL (this example_world) @ ''/pub/v2/odds/fixtures?sport='' @ ''soccer'' @ ''&date=''
        @ Format_2006_01_02 (time_Now (example_env resp)) @ ''&players=false&limit='' @ Sprintf_d 10)
     None
   = Inr \<lparr>Method = ''GET'',
          URL = ''https://sports-api.cloudbet.com/pub/v2/odds/fixtures?sport=soccer&date=2024-03-09&players=false&limit=10'',
          Header = Map.empty, ReqBody = None\<rparr>"
  unfolding example_fixtures_URL
  by (rule example_http_NewRequest [OF example_fixtures_URL_ok])

lemma example_GetTodayFixtures_wire:
  "\<exists>req. wire (snd (GetTodayFixtures (example_env resp) ''soccer'' 10 example_world))
           = wire example_world @ [req]"
  using example_GetTodayFixtures_NewRequest [of resp]
  by (simp add: GetTodayFixtures_def Client_Do_def Let_def example_world_def NewAPIClient_def
      split: sum.splits)

lemma example_GetTodayFixturesJSON_wire:
  "\<exists>req. wire (snd (GetTodayFixturesJSON (example_env resp) ''soccer'' 10 example_world))
           = wire example_world @ [req]"
  using example_GetTodayFixtures_wire [of resp]
  by (auto simp: GetTodayFixturesJSON_def split: prod.splits outcome.splits option.splits sum.splits)

lemma example_GetEvent_URL:
  "\<not> stringContainsCTLByte (takeWhile (\<lambda>c. c \<noteq> CHR ''#'')
        (BaseURL (this example_world) @ (''/pub/v2/odds/events/'' @ ''7'')))"
  by code_simp

lemma example_GetEvent_wire:
  "\<exists>req. wire (snd (GetEvent (example_env resp) ''7'' example_world)) = wire example_world @ [req]"
  using example_GetEvent_URL
  by (simp add: GetEvent_def Client_Do_def Let_def
        example_world_def NewAPIClient_def example_env_def http_NewRequest_def
      split: sum.splits)

lemma example_GetEventJSON_wire:
  "\<exists>req. wire (snd (GetEventJSON (example_env resp) ''7'' example_world)) = wire example_world @ [req]"
  using example_GetEvent_wire [of resp]
  by (auto simp: GetEventJSON_def split: prod.splits outcome.splits option.splits sum.splits)

lemma example_RoundTrip:
  "RoundTrip (example_env resp) req = Inr resp"
  by (simp add: example_env_def)

lemma example_Client:
  "Client (this example_world) \<noteq> None"
  by (simp add: example_world_def NewAPIClient_def)

lemma example_fixtures_valid:
  "checkValid example_fixtures_text = Inr example_fixtures_json"
  by code_simp

lemma example_fixtures_unmarshal:
  "unmarshal (Fixtures_decoder strictTime) Fixtures_zero example_fixtures_json = Inr example_fixtures"
  by code_simp

lemma example_fixtures_shape:
  "fixtures_json strictTime example_fixtures_json example_competition1_json example_competition2_json"
  "competition_json strictTime example_competition1_json
     ''Premier League'' ''soccer-england-premier-league'' example_event1_json"
  "event_json strictTime example_event1_json
     ''Arsenal v Chelsea'' ''arsenal-v-chelsea'' ''2024-03-09T18:30:00Z''"
  "competition_json strictTime example_competition2_json
     ''La Liga'' ''soccer-spain-laliga'' example_event2_json"
  "event_json strictTime example_event2_json
     ''Sevilla v Betis'' ''sevilla-v-betis'' ''2024-03-10T20:00:00+01:00''"
  by code_simp+

lemma example_fixtures_strings:
  "unquote ''Premier League'' = ''Premier League''"
  "unquote ''soccer-england-premier-league'' = ''soccer-england-premier-league''"
  "unquote ''Arsenal v Chelsea'' = ''Arsenal v Chelsea''"
  "unquote ''arsenal-v-chelsea'' = ''arsenal-v-chelsea''"
  "unquote ''La Liga'' = ''La Liga''"
  "unquote ''soccer-spain-laliga'' = ''soccer-spain-laliga''"
  "unquote ''Sevilla v Betis'' = ''Sevilla v Betis''"
  "unquote ''sevilla-v-betis'' = ''sevilla-v-betis''"
  by code_simp+

lemma example_fixtures_times:
  "strictTime ''2024-03-09T18:30:00Z''
     = Inr \<lparr>year = 2024, month = 3, day = 9, hour = 18, minute = 30, second = 0,
            nanosecond = 0, zone_offset = 0\<rparr>"
  "strictTime ''2024-03-10T20:00:00+01:00''
     = Inr \<lparr>year = 2024, month = 3, day = 10, hour = 20, minute = 0, second = 0,
            nanosecond = 0, zone_offset = 3600\<rparr>"
  by code_simp+

lemma example_event_valid:
  "checkValid example_event_text
     = Inr (JObj [(''id'', JNum ''7''),
                  (''markets'',
                   JObj [(''soccer.match_odds'', JObj [(''selections'', JArr []), (''sequence'', JNum ''3'')]),
                         (''additionalProp1'', JObj example_additionalProp1_members)])])"
  "checkValid example_event_text'
     = Inr (JObj [(''id'', JNum ''7''),
                  (''markets'', JObj [(''additionalProp1'', JObj example_additionalProp1_members)])])"
  by code_simp+

lemma example_event_unmarshal:
  "json_Unmarshal (Event_decoder strictTime) Event_zero example_event_text' = Inr example_event"
  by code_simp

lemma example_event_shape:
  "findField EventMarkets_fields ''soccer.match_odds'' = None"
  "members_for (Event_fields strictTime) ''markets''
     [(''id'', JNum ''7''),
      (''markets'', JObj [(''additionalProp1'', JObj example_additionalProp1_members)])]
     = [JObj [(''additionalProp1'', JObj example_additionalProp1_members)]]"
  "members_for EventMarkets_fields ''additionalProp1''
     [(''additionalProp1'', JObj example_additionalProp1_members)]
     = [JObj example_additionalProp1_members]"
  "members_for AdditionalProp1_fields ''sequence'' example_additionalProp1_members = [JNum ''7'']"
  "members_for AdditionalProp1_fields ''selections'' example_additionalProp1_members
     = [JArr [JObj [(''price'', JNum ''1.5'')]]]"
  "ParseInt ''7'' = Some 7"
  by code_simp+

section \<open>The claims\<close>

text \<open>
  C1. When the HTTP response of a bet placement has a status other than 200 (every
  non-success status is one) and its body decodes into the result record, \<open>PlaceBet\<close>
  returns that record together with an error whose message is \<^verbatim>\<open>failed to place bet: \<close>
  followed by the status text of the response. In particular, for a response with status
  400 and the body \<^verbatim>\<open>{"error":"insufficient funds"}\<close> it returns an error and a record
  whose \<^verbatim>\<open>Error\<close> field is \<^verbatim>\<open>insufficient funds\<close>.
\<close>

theorem PlaceBet_failed_status_returns_result_and_error:
  assumes "PlaceBet E payload w = (out, w')"
      and "wire w' = wire w @ [req]"
      and "RoundTrip E req = Inr resp"
  shows "(StatusCode resp \<noteq> 200
            \<and> Decoder_Decode PlaceBetResponse_decoder PlaceBetResponse_zero (Body resp) = Inr r
          \<longrightarrow> out = Returned (Some r, Some (Errorf (''failed to place bet: '' @ Status resp))))
       \<and> (StatusCode resp = 400 \<and> bytes (Body resp) = ''{\"error\":\"insufficient funds\"}''
          \<longrightarrow> (\<exists>r'. out = Returned (Some r', Some (Errorf (''failed to place bet: '' @ Status resp)))
                    \<and> PlaceBetResponse_Error r' = ''insufficient funds''))"
  using PlaceBet_exchange [OF assms] Decode_insufficient_funds [of "Body resp"]
  by auto

theorem PlaceBet_failed_status_witness:
  "fst (PlaceBet (example_env (example_response 400 ''400 Bad Request''
                                 ''{\"error\":\"insufficient funds\"}''))
          example_payload example_world)
     = Returned (Some (PlaceBetResponse_zero\<lparr>PlaceBetResponse_Error := ''insufficient funds''\<rparr>),
                 Some (Errorf ''failed to place bet: 400 Bad Request''))"
proof -
  let ?resp = "example_response 400 ''400 Bad Request'' ''{\"error\":\"insufficient funds\"}''"
  let ?E = "example_env ?resp"
  obtain req where w: "wire (snd (PlaceBet ?E example_payload example_world))
                         = wire example_world @ [req]"
    using example_PlaceBet_wire by blast
  have rt: "RoundTrip ?E req = Inr ?resp"
    by (simp add: example_env_def)
  have st: "StatusCode ?resp \<noteq> 200"
    by (simp add: example_response_def)
  have dec: "Decoder_Decode PlaceBetResponse_decoder PlaceBetResponse_zero (Body ?resp)
               = Inr (PlaceBetResponse_zero\<lparr>PlaceBetResponse_Error := ''insufficient funds''\<rparr>)"
    by (rule Decode_insufficient_funds) (simp add: example_response_def)
  from PlaceBet_failed_status_returns_result_and_error
         [OF surjective_pairing w rt,
          of "PlaceBetResponse_zero\<lparr>PlaceBetResponse_Error := ''insufficient funds''\<rparr>"]
       st dec
  show ?thesis
    by (simp add: example_response_def)
qed

text \<open>
  C7. When the body of the HTTP response does not decode into the result record,
  \<open>PlaceBet\<close> returns a nil result together with the decoder's error, whatever the status
  of the response is; so with a status other than 200 and such a body the caller gets no
  result.
\<close>

theorem PlaceBet_undecodable_body_returns_nil:
  assumes "PlaceBet E payload w = (out, w')"
      and "wire w' = wire w @ [req]"
      and "RoundTrip E req = Inr resp"
      and "Decoder_Decode PlaceBetResponse_decoder PlaceBetResponse_zero (Body resp) = Inl e"
  shows "out = Returned (None, Some e)"
  using PlaceBet_exchange [OF assms(1-3)] assms(4)
  by simp

theorem PlaceBet_undecodable_body_witness:
  "fst (PlaceBet (example_env (example_response 502 ''502 Bad Gateway''
                                 ''<html>Bad Gateway</html>''))
          example_payload example_world)
     = Returned (None, Some SyntaxError)"
proof -
  let ?resp = "example_response 502 ''502 Bad Gateway'' ''<html>Bad Gateway</html>''"
  let ?E = "example_env ?resp"
  obtain req where w: "wire (snd (PlaceBet ?E example_payload example_world))
                         = wire example_world @ [req]"
    using example_PlaceBet_wire by blast
  have rt: "RoundTrip ?E req = Inr ?resp"
    by (simp add: example_env_def)
  have dec: "Decoder_Decode PlaceBetResponse_decoder PlaceBetResponse_zero (Body ?resp)
               = Inl SyntaxError"
    using Decode_not_json by (simp add: example_response_def)
  from PlaceBet_undecodable_body_returns_nil [OF surjective_pairing w rt dec]
  show ?thesis .
qed

text \<open>
  C8. \<open>PlaceBet\<close> returns an error for every response whose status is not exactly 200,
  the other success statuses such as 201 and 204 included; and when it returns no error,
  the call has had a response with status 200 whose body decoded into the result it
  returns.
\<close>

theorem PlaceBet_error_unless_200:
  "(PlaceBet E payload w = (Returned (r, err), w') \<and> wire w' = wire w @ [req]
      \<and> RoundTrip E req = Inr resp \<and> StatusCode resp \<noteq> 200
    \<longrightarrow> err \<noteq> None)
   \<and> (PlaceBet E payload w = (Returned (r, None), w')
    \<longrightarrow> (\<exists>req resp x. wire w' = wire w @ [req] \<and> RoundTrip E req = Inr resp
            \<and> StatusCode resp = 200
            \<and> Decoder_Decode PlaceBetResponse_decoder PlaceBetResponse_zero (Body resp) = Inr x
            \<and> r = Some x))"
proof (intro conjI impI)
  assume a: "PlaceBet E payload w = (Returned (r, err), w') \<and> wire w' = wire w @ [req]
               \<and> RoundTrip E req = Inr resp \<and> StatusCode resp \<noteq> 200"
  then have "Returned (r, err) =
     (case Decoder_Decode PlaceBetResponse_decoder PlaceBetResponse_zero (Body resp) of
        Inl err \<Rightarrow> Returned (None, Some err)
      | Inr r \<Rightarrow>
          if StatusCode resp \<noteq> 200
          then Returned (Some r, Some (Errorf (''failed to place bet: '' @ Status resp)))
          else Returned (Some r, None))"
    using PlaceBet_exchange by blast
  with a show "err \<noteq> None"
    by (auto split: sum.splits)
next
  assume "PlaceBet E payload w = (Returned (r, None), w')"
  then show "\<exists>req resp x. wire w' = wire w @ [req] \<and> RoundTrip E req = Inr resp
            \<and> StatusCode resp = 200
            \<and> Decoder_Decode PlaceBetResponse_decoder PlaceBetResponse_zero (Body resp) = Inr x
            \<and> r = Some x"
    by (rule PlaceBet_nil_error)
qed

theorem PlaceBet_error_unless_200_witness:
  "snd (case fst (PlaceBet (example_env (example_response 201 ''201 Created'' ''{}''))
                 example_payload example_world) of Returned p \<Rightarrow> p | Panicked \<Rightarrow> (None, None))
     = Some (Errorf ''failed to place bet: 201 Created'')"
proof -
  let ?resp = "example_response 201 ''201 Created'' ''{}''"
  let ?E = "example_env ?resp"
  obtain req where w: "wire (snd (PlaceBet ?E example_payload example_world))
                         = wire example_world @ [req]"
    using example_PlaceBet_wire by blast
  have rt: "RoundTrip ?E req = Inr ?resp"
    by (simp add: example_env_def)
  have dec: "Decoder_Decode PlaceBetResponse_decoder PlaceBetResponse_zero (Body ?resp)
               = Inr PlaceBetResponse_zero"
    using Decode_empty_object by (simp add: example_response_def)
  have out: "fst (PlaceBet ?E example_payload example_world) =
               Returned (Some PlaceBetResponse_zero, Some (Errorf ''failed to place bet: 201 Created''))"
    using PlaceBet_exchange [OF surjective_pairing w rt] dec
    by (simp add: example_response_def)
  obtain w' where run: "PlaceBet ?E example_payload example_world =
      (Returned (Some PlaceBetResponse_zero, Some (Errorf ''failed to place bet: 201 Created'')), w')"
    using out by (metis surjective_pairing)
  have w2: "wire w' = wire example_world @ [req]"
    using w run by simp
  have "StatusCode ?resp \<noteq> 200"
    by (simp add: example_response_def)
  with PlaceBet_error_unless_200
         [of ?E example_payload example_world "Some PlaceBetResponse_zero"
             "Some (Errorf ''failed to place bet: 201 Created'')" w' req ?resp]
       run w2 rt
  have "Some (Errorf ''failed to place bet: 201 Created'') \<noteq> None"
    by blast
  with out show ?thesis
    by simp
qed




text \<open>
  C3 (as amended). The markets component of the decoded event is a struct of the three
  fixed fields \<^verbatim>\<open>additionalProp1\<close>, \<^verbatim>\<open>additionalProp2\<close> and \<^verbatim>\<open>additionalProp3\<close>, not a map. A
  member of the response's markets object whose key selects none of these fields is
  dropped: two lookups whose responses differ only in such a member return the same. The
  member for \<^verbatim>\<open>additionalProp1\<close> is decoded into a list of selections, one for each element of
  its \<^verbatim>\<open>selections\<close> array, and a sequencing counter, the integer of its \<^verbatim>\<open>sequence\<close>.
\<close>

theorem GetEventJSON_markets_fixed_fields:
  "(findField EventMarkets_fields k = None
      \<and> GetEventJSON E eid w = (out1, w1) \<and> wire w1 = wire w @ [req1]
      \<and> RoundTrip E req1 = Inr resp1 \<and> io_ReadAll (Body resp1) = Inr text1
      \<and> checkValid text1 = Inr (JObj (t1 @ (''markets'', JObj (ms1 @ (k, v) # ms2)) # t2))
      \<and> GetEventJSON E' eid' w' = (out2, w2) \<and> wire w2 = wire w' @ [req2]
      \<and> RoundTrip E' req2 = Inr resp2 \<and> io_ReadAll (Body resp2) = Inr text2
      \<and> checkValid text2 = Inr (JObj (t1 @ (''markets'', JObj (ms1 @ ms2)) # t2))
      \<and> time_Parse E' = time_Parse E
    \<longrightarrow> out1 = out2)
   \<and> (GetEventJSON E eid w = (Returned (Some ev, err), w1) \<and> wire w1 = wire w @ [req1]
      \<and> RoundTrip E req1 = Inr resp1
      \<and> checkValid (bytes (Body resp1)) = Inr (JObj mems)
      \<and> members_for (Event_fields (time_Parse E)) ''markets'' mems = [JObj ms]
      \<and> members_for EventMarkets_fields ''additionalProp1'' ms = [JObj ps]
      \<and> members_for AdditionalProp1_fields ''sequence'' ps = [JNum n]
      \<and> members_for AdditionalProp1_fields ''selections'' ps = [JArr es]
      \<and> ParseInt n = Some i
    \<longrightarrow> AdditionalProp1_Sequence (EventMarkets_AdditionalProp1 (Event_Markets ev)) = i
        \<and> length (AdditionalProp1_Selections (EventMarkets_AdditionalProp1 (Event_Markets ev)))
            = length es)"
proof (rule conjI; rule impI)
  assume a: "findField EventMarkets_fields k = None
      \<and> GetEventJSON E eid w = (out1, w1) \<and> wire w1 = wire w @ [req1]
      \<and> RoundTrip E req1 = Inr resp1 \<and> io_ReadAll (Body resp1) = Inr text1
      \<and> checkValid text1 = Inr (JObj (t1 @ (''markets'', JObj (ms1 @ (k, v) # ms2)) # t2))
      \<and> GetEventJSON E' eid' w' = (out2, w2) \<and> wire w2 = wire w' @ [req2]
      \<and> RoundTrip E' req2 = Inr resp2 \<and> io_ReadAll (Body resp2) = Inr text2
      \<and> checkValid text2 = Inr (JObj (t1 @ (''markets'', JObj (ms1 @ ms2)) # t2))
      \<and> time_Parse E' = time_Parse E"
  then have k: "findField EventMarkets_fields k = None" by blast
  from a have 1: "out1 =
     (case io_ReadAll (Body resp1) of
        Inl e \<Rightarrow> Returned (None, Some e)
      | Inr text \<Rightarrow>
          (case json_Unmarshal (Event_decoder (time_Parse E)) Event_zero text of
             Inl e \<Rightarrow> Returned (None, Some e)
           | Inr ev \<Rightarrow> Returned (Some ev, None)))"
    using GetEventJSON_exchange by blast
  from a have 2: "out2 =
     (case io_ReadAll (Body resp2) of
        Inl e \<Rightarrow> Returned (None, Some e)
      | Inr text \<Rightarrow>
          (case json_Unmarshal (Event_decoder (time_Parse E')) Event_zero text of
             Inl e \<Rightarrow> Returned (None, Some e)
           | Inr ev \<Rightarrow> Returned (Some ev, None)))"
    using GetEventJSON_exchange by blast
  from a have "json_Unmarshal (Event_decoder (time_Parse E)) Event_zero text1
             = json_Unmarshal (Event_decoder (time_Parse E)) Event_zero text2"
    by (simp add: json_Unmarshal_def Event_unmarshal_skip [OF k])
  with 1 2 a show "out1 = out2"
    by simp
next
  assume b: "GetEventJSON E eid w = (Returned (Some ev, err), w1) \<and> wire w1 = wire w @ [req1]
      \<and> RoundTrip E req1 = Inr resp1
      \<and> checkValid (bytes (Body resp1)) = Inr (JObj mems)
      \<and> members_for (Event_fields (time_Parse E)) ''markets'' mems = [JObj ms]
      \<and> members_for EventMarkets_fields ''additionalProp1'' ms = [JObj ps]
      \<and> members_for AdditionalProp1_fields ''sequence'' ps = [JNum n]
      \<and> members_for AdditionalProp1_fields ''selections'' ps = [JArr es]
      \<and> ParseInt n = Some i"
  then have "Returned (Some ev, err) =
     (case io_ReadAll (Body resp1) of
        Inl e \<Rightarrow> Returned (None, Some e)
      | Inr text \<Rightarrow>
          (case json_Unmarshal (Event_decoder (time_Parse E)) Event_zero text of
             Inl e \<Rightarrow> Returned (None, Some e)
           | Inr ev \<Rightarrow> Returned (Some ev, None)))"
    using GetEventJSON_exchange by blast
  then have "json_Unmarshal (Event_decoder (time_Parse E)) Event_zero (bytes (Body resp1)) = Inr ev"
    by (auto simp: io_ReadAll_def split: sum.splits option.splits)
  with b have "unmarshal (Event_decoder (time_Parse E)) Event_zero (JObj mems) = Inr ev"
    by (simp add: json_Unmarshal_def)
  with b show "AdditionalProp1_Sequence (EventMarkets_AdditionalProp1 (Event_Markets ev)) = i
        \<and> length (AdditionalProp1_Selections (EventMarkets_AdditionalProp1 (Event_Markets ev)))
            = length es"
    using Event_markets_decoded by blast
qed

theorem GetEventJSON_markets_fixed_fields_witness:
  "fst (GetEventJSON (example_env (example_response 200 ''200 OK'' example_event_text))
          ''7'' example_world)
     = fst (GetEventJSON (example_env (example_response 200 ''200 OK'' example_event_text'))
              ''7'' example_world)
   \<and> fst (GetEventJSON (example_env (example_response 200 ''200 OK'' example_event_text'))
              ''7'' example_world)
     = Returned (Some example_event, None)
   \<and> AdditionalProp1_Sequence (EventMarkets_AdditionalProp1 (Event_Markets example_event)) = 7
   \<and> length (AdditionalProp1_Selections (EventMarkets_AdditionalProp1 (Event_Markets example_event)))
       = length [JObj [(''price'', JNum ''1.5'')]]"
proof -
  let ?r1 = "example_response 200 ''200 OK'' example_event_text"
  let ?r2 = "example_response 200 ''200 OK'' example_event_text'"
  let ?E1 = "example_env ?r1"
  let ?E2 = "example_env ?r2"
  let ?run1 = "GetEventJSON ?E1 ''7'' example_world"
  let ?run2 = "GetEventJSON ?E2 ''7'' example_world"
  obtain req1 where w1: "wire (snd ?run1) = wire example_world @ [req1]"
    using example_GetEventJSON_wire by blast
  obtain req2 where w2: "wire (snd ?run2) = wire example_world @ [req2]"
    using example_GetEventJSON_wire by blast
  have tp: "time_Parse ?E2 = strictTime" "time_Parse ?E1 = strictTime"
    by (simp_all add: example_env_def)
  have rd: "io_ReadAll (Body ?r1) = Inr example_event_text"
           "io_ReadAll (Body ?r2) = Inr example_event_text'"
           "bytes (Body ?r2) = example_event_text'"
    by (simp_all add: io_ReadAll_def example_response_def)
  have out2: "fst ?run2 = Returned (Some example_event, None)"
    using GetEventJSON_exchange [OF surjective_pairing w2 example_RoundTrip]
    by (simp add: rd tp example_event_unmarshal)
  then have run2: "?run2 = (Returned (Some example_event, None), snd ?run2)"
    by (simp add: prod_eq_iff)
  have A: "fst ?run1 = fst ?run2"
    by (rule GetEventJSON_markets_fixed_fields
          [where k = "''soccer.match_odds''" and E = ?E1 and eid = "''7''" and w = example_world
             and ?out1.0 = "fst ?run1" and ?w1.0 = "snd ?run1" and ?req1.0 = req1 and ?resp1.0 = ?r1
             and ?text1.0 = example_event_text and ?t1.0 = "[(''id'', JNum ''7'')]"
             and ?ms1.0 = "[]"
             and v = "JObj [(''selections'', JArr []), (''sequence'', JNum ''3'')]"
             and ?ms2.0 = "[(''additionalProp1'', JObj example_additionalProp1_members)]"
             and ?t2.0 = "[]" and E' = ?E2 and eid' = "''7''" and w' = example_world
             and ?out2.0 = "fst ?run2" and ?w2.0 = "snd ?run2" and ?req2.0 = req2 and ?resp2.0 = ?r2
             and ?text2.0 = "example_event_text'",
           THEN conjunct1, THEN mp])
       (simp add: w1 w2 example_RoundTrip rd tp example_event_valid example_event_shape)
  have B: "AdditionalProp1_Sequence (EventMarkets_AdditionalProp1 (Event_Markets example_event)) = 7
           \<and> length (AdditionalProp1_Selections (EventMarkets_AdditionalProp1 (Event_Markets example_event)))
               = length [JObj [(''price'', JNum ''1.5'')]]"
    by (rule GetEventJSON_markets_fixed_fields
          [where E = ?E2 and eid = "''7''" and w = example_world and ev = example_event
             and err = None and ?w1.0 = "snd ?run2" and ?req1.0 = req2 and ?resp1.0 = ?r2
             and mems = "[(''id'', JNum ''7''),
                          (''markets'', JObj [(''additionalProp1'', JObj example_additionalProp1_members)])]"
             and ms = "[(''additionalProp1'', JObj example_additionalProp1_members)]"
             and ps = example_additionalProp1_members and n = "''7''"
             and es = "[JObj [(''price'', JNum ''1.5'')]]" and i = 7,
           THEN conjunct2, THEN mp])
       (simp add: run2 [symmetric] w2 example_RoundTrip rd tp example_event_valid example_event_shape)
  from A out2 B show ?thesis
    by simp
qed

text \<open>
  The claim as it was stated fails: the response below has a market under the key
  \<^verbatim>\<open>soccer.match_odds\<close>, the lookup decodes it without an error, and the markets component
  of the result is the zero value, with no trace of the key or of its selections.
\<close>

theorem GetEventJSON_market_key_counterexample:
  "fst (GetEventJSON
          (example_env (example_response 200 ''200 OK''
             ''{\"id\":7,\"markets\":{\"soccer.match_odds\":{\"selections\":[{\"price\":1.5}],\"sequence\":7}}}''))
          ''7'' example_world)
     = Returned (Some (Event_zero\<lparr>Event_ID := 7\<rparr>), None)
   \<and> Event_Markets (Event_zero\<lparr>Event_ID := 7\<rparr>) = EventMarkets_zero"
  by code_simp

text \<open>
  C4 (as amended). On a client whose transport is not nil, as the constructor builds it:
  for every sport \<open>s\<close> and limit \<open>n\<close> whose URL \<^verbatim>\<open>http.NewRequest\<close> accepts,
  \<open>GetTodayFixtures\<close> hands exactly one request to the transport; its method is \<^verbatim>\<open>GET\<close>,
  its URL is the base URL followed by
  \<^verbatim>\<open>/pub/v2/odds/fixtures?sport=s&date=D&players=false&limit=n\<close>, where \<open>D\<close> is the date the
  local clock shows at the call, written as year, month and day, and its \<^verbatim>\<open>X-API-Key\<close>
  header is the client's API key. When \<^verbatim>\<open>http.NewRequest\<close> rejects the URL, no request is
  handed over and the error is returned.
\<close>

theorem GetTodayFixtures_one_request:
  assumes "Client (this w) \<noteq> None"
  shows
   "(case http_NewRequest E ''GET''
            (BaseURL (this w) @ ''/pub/v2/odds/fixtures?sport='' @ sport @ ''&date=''
               @ Format_2006_01_02 (time_Now E) @ ''&players=false&limit='' @ Sprintf_d limit) None of
       Inl e \<Rightarrow> GetTodayFixtures E sport limit w = (Returned ([], Some e), w)
     | Inr r0 \<Rightarrow>
         (\<exists>req. wire (snd (GetTodayFixtures E sport limit w)) = wire w @ [req]
            \<and> Method req = ''GET''
            \<and> URL req = BaseURL (this w) @ ''/pub/v2/odds/fixtures?sport='' @ sport @ ''&date=''
                 @ Format_2006_01_02 (time_Now E) @ ''&players=false&limit='' @ Sprintf_d limit
            \<and> Header_Get (Header req) ''X-API-Key'' = APIKey (this w)))"
  using assms
  by (auto simp: GetTodayFixtures_def Client_Do_def Let_def http_NewRequest_def
        Request_Header_Set_def Header_Set_def Header_Get_def canonical_keys
      split: sum.splits option.splits)

theorem GetTodayFixtures_one_request_witness:
  "\<exists>req. wire (snd (GetTodayFixtures (example_env (example_response 200 ''200 OK'' ''{}''))
                      ''soccer'' 10 example_world)) = wire example_world @ [req]
     \<and> Method req = ''GET''
     \<and> URL req = ''https://sports-api.cloudbet.com/pub/v2/odds/fixtures?sport=soccer&date=2024-03-09&players=false&limit=10''
     \<and> Header_Get (Header req) ''X-API-Key'' = ''secret''"
proof -
  let ?E = "example_env (example_response 200 ''200 OK'' ''{}'')"
  have key: "APIKey (this example_world) = ''secret''"
    by (simp add: example_world_def NewAPIClient_def)
  have "\<exists>req. wire (snd (GetTodayFixtures ?E ''soccer'' 10 example_world)) = wire example_world @ [req]
            \<and> Method req = ''GET''
            \<and> URL req = BaseURL (this example_world) @ ''/pub/v2/odds/fixtures?sport='' @ ''soccer''
                 @ ''&date='' @ Format_2006_01_02 (time_Now ?E) @ ''&players=false&limit='' @ Sprintf_d 10
            \<and> Header_Get (Header req) ''X-API-Key'' = APIKey (this example_world)"
    using GetTodayFixtures_one_request [OF example_Client, of ?E "''soccer''" 10]
    unfolding example_GetTodayFixtures_NewRequest sum.case .
  then show ?thesis
    unfolding example_fixtures_URL key .
qed

text \<open>
  The claim as it was stated fails for a sport with a control byte, here a line feed:
  \<^verbatim>\<open>http.NewRequest\<close> rejects the URL, \<open>GetTodayFixtures\<close> returns its error, and the list
  of requests is as empty as before.
\<close>

theorem GetTodayFixtures_control_byte_counterexample:
  "GetTodayFixtures (example_env (example_response 200 ''200 OK'' ''{}'')) [CHR 0x0A] 10 example_world
     = (Returned ([], Some (URLError ''net/url: invalid control character in URL'')), example_world)
   \<and> wire example_world = []"
  by (simp add: GetTodayFixtures_def http_NewRequest_def example_world_def NewAPIClient_def
        stringContainsCTLByte_def byte_def Let_def)

text \<open>
  C5. Each parsed variant is its raw variant followed by \<^verbatim>\<open>json.Unmarshal\<close>:
  \<open>GetTodayFixturesJSON\<close> returns what unmarshalling the text returned by
  \<open>GetTodayFixtures\<close> into the fixture tree gives, and hands an error of the raw variant
  on unchanged; \<open>GetEventJSON\<close> does the same with \<open>GetEvent\<close> and the full event record.
\<close>

theorem parsed_variants_refine_raw_variants:
  "GetTodayFixturesJSON E sport limit w
     = parsed_variant (Fixtures_decoder (time_Parse E)) Fixtures_zero (GetTodayFixtures E sport limit w)
   \<and> GetEventJSON E eid w
     = parsed_variant (Event_decoder (time_Parse E)) Event_zero (GetEvent E eid w)"
  by (auto simp: GetTodayFixturesJSON_def GetEventJSON_def parsed_variant_def
           split: prod.splits outcome.splits option.splits sum.splits)

text \<open>
  C6. For a fixtures response with two competitions of one event each (\<open>fixtures_json\<close>,
  \<open>competition_json\<close> and \<open>event_json\<close> say what the body holds), the structure that
  \<open>GetTodayFixturesJSON\<close> returns has two competitions, each with one event; the names and
  keys of the competitions and of the events are the strings of the body, unquoted, and
  each cutoff time is the time that the string of the body denotes.
\<close>

theorem GetTodayFixturesJSON_two_competitions:
  assumes run: "GetTodayFixturesJSON E sport limit w = (Returned (Some f, err), w')"
      and wire: "wire w' = wire w @ [req]"
      and resp: "RoundTrip E req = Inr resp"
      and valid: "checkValid (bytes (Body resp)) = Inr j"
      and top: "fixtures_json (time_Parse E) j c1 c2"
      and c1: "competition_json (time_Parse E) c1 n1 k1 e1"
      and e1: "event_json (time_Parse E) e1 en1 ek1 t1"
      and c2: "competition_json (time_Parse E) c2 n2 k2 e2"
      and e2: "event_json (time_Parse E) e2 en2 ek2 t2"
  shows "length (Fixtures_Competitions f) = 2
       \<and> (\<exists>x1 x2 y1 y2.
             Fixtures_Competitions f = [x1, x2]
             \<and> Competitions_Name x1 = unquote n1 \<and> Competitions_Key x1 = unquote k1
             \<and> Competitions_Events x1 = [y1]
             \<and> Events_Name y1 = unquote en1 \<and> Events_Key y1 = unquote ek1
             \<and> time_Parse E t1 = Inr (Events_CutoffTime y1)
             \<and> Competitions_Name x2 = unquote n2 \<and> Competitions_Key x2 = unquote k2
             \<and> Competitions_Events x2 = [y2]
             \<and> Events_Name y2 = unquote en2 \<and> Events_Key y2 = unquote ek2
             \<and> time_Parse E t2 = Inr (Events_CutoffTime y2))"
proof -
  from GetTodayFixturesJSON_success [OF run wire resp] valid
  have "unmarshal (Fixtures_decoder (time_Parse E)) Fixtures_zero j = Inr f"
    by (simp add: json_Unmarshal_def)
  from fixtures_decoded [OF top this] obtain x1 x2 sa sb sc where
    f: "Fixtures_Competitions f = [x1, x2]" and
    d1: "Competitions_decoder (time_Parse E) c1 Competitions_zero sa = Inr (x1, sb)" and
    d2: "Competitions_decoder (time_Parse E) c2 Competitions_zero sb = Inr (x2, sc)"
    by blast
  from competition_decoded [OF c1 e1 d1] competition_decoded [OF c2 e2 d2] f
  show ?thesis
    by auto
qed

theorem GetTodayFixturesJSON_two_competitions_witness:
  "fst (GetTodayFixturesJSON (example_env (example_response 200 ''200 OK'' example_fixtures_text))
          ''soccer'' 10 example_world)
     = Returned (Some example_fixtures, None)
   \<and> length (Fixtures_Competitions example_fixtures) = 2
   \<and> (\<exists>x1 x2 y1 y2.
         Fixtures_Competitions example_fixtures = [x1, x2]
         \<and> Competitions_Name x1 = ''Premier League''
         \<and> Competitions_Key x1 = ''soccer-england-premier-league''
         \<and> Competitions_Events x1 = [y1]
         \<and> Events_Name y1 = ''Arsenal v Chelsea'' \<and> Events_Key y1 = ''arsenal-v-chelsea''
         \<and> Events_CutoffTime y1
             = \<lparr>year = 2024, month = 3, day = 9, hour = 18, minute = 30, second = 0,
                nanosecond = 0, zone_offset = 0\<rparr>
         \<and> Competitions_Name x2 = ''La Liga'' \<and> Competitions_Key x2 = ''soccer-spain-laliga''
         \<and> Competitions_Events x2 = [y2]
         \<and> Events_Name y2 = ''Sevilla v Betis'' \<and> Events_Key y2 = ''sevilla-v-betis''
         \<and> Events_CutoffTime y2
             = \<lparr>year = 2024, month = 3, day = 10, hour = 20, minute = 0, second = 0,
                nanosecond = 0, zone_offset = 3600\<rparr>)"
proof -
  let ?resp = "example_response 200 ''200 OK'' example_fixtures_text"
  let ?E = "example_env ?resp"
  let ?run = "GetTodayFixturesJSON ?E ''soccer'' 10 example_world"
  obtain req where w: "wire (snd ?run) = wire example_world @ [req]"
    using example_GetTodayFixturesJSON_wire by blast
  have tp: "time_Parse ?E = strictTime"
    by (simp add: example_env_def)
  have rd: "io_ReadAll (Body ?resp) = Inr example_fixtures_text"
           "bytes (Body ?resp) = example_fixtures_text"
    by (simp_all add: io_ReadAll_def example_response_def)
  have out: "fst ?run = Returned (Some example_fixtures, None)"
    using GetTodayFixturesJSON_exchange [OF surjective_pairing w example_RoundTrip]
    by (simp add: rd tp json_Unmarshal_def example_fixtures_valid example_fixtures_unmarshal)
  then have run: "?run = (Returned (Some example_fixtures, None), snd ?run)"
    by (simp add: prod_eq_iff)
  have valid: "checkValid (bytes (Body ?resp)) = Inr example_fixtures_json"
    by (simp add: rd example_fixtures_valid)
  note shape = example_fixtures_shape [folded tp]
  from GetTodayFixturesJSON_two_competitions
         [OF run w example_RoundTrip valid shape(1) shape(2) shape(3) shape(4) shape(5)]
  obtain x1 x2 y1 y2 where
    f: "Fixtures_Competitions example_fixtures = [x1, x2]" and
    c1: "Competitions_Name x1 = ''Premier League''"
        "Competitions_Key x1 = ''soccer-england-premier-league''"
        "Competitions_Events x1 = [y1]"
        "Events_Name y1 = ''Arsenal v Chelsea''" "Events_Key y1 = ''arsenal-v-chelsea''" and
    t1: "strictTime ''2024-03-09T18:30:00Z'' = Inr (Events_CutoffTime y1)" and
    c2: "Competitions_Name x2 = ''La Liga''" "Competitions_Key x2 = ''soccer-spain-laliga''"
        "Competitions_Events x2 = [y2]"
        "Events_Name y2 = ''Sevilla v Betis''" "Events_Key y2 = ''sevilla-v-betis''" and
    t2: "strictTime ''2024-03-10T20:00:00+01:00'' = Inr (Events_CutoffTime y2)"
    unfolding example_fixtures_strings tp by blast
  from t1 t2 have
    "Events_CutoffTime y1
       = \<lparr>year = 2024, month = 3, day = 9, hour = 18, minute = 30, second = 0,
          nanosecond = 0, zone_offset = 0\<rparr>"
    "Events_CutoffTime y2
       = \<lparr>year = 2024, month = 3, day = 10, hour = 20, minute = 0, second = 0,
          nanosecond = 0, zone_offset = 3600\<rparr>"
    unfolding example_fixtures_times by simp_all
  with f c1 c2 out show ?thesis
    by simp
qed



text \<open>
  C10. No operation changes the client: the base URL, the API key and the transport handle
  that the receiver points to are after a call what they were before it.
\<close>

theorem operations_leave_client_unchanged:
  "this (snd (PlaceBet E payload w)) = this w
   \<and> this (snd (AccountBalance E currency w)) = this w
   \<and> this (snd (GetTodayFixtures E sport limit w)) = this w
   \<and> this (snd (GetTodayFixturesJSON E sport limit w)) = this w
   \<and> this (snd (GetEvent E eid w)) = this w
   \<and> this (snd (GetEventJSON E eid w)) = this w"
proof -
  have 1: "this (snd (PlaceBet E payload w)) = this w"
    by (auto simp: PlaceBet_def Client_Do_def Let_def split: sum.splits option.splits)
  have 2: "this (snd (AccountBalance E currency w)) = this w"
    by (auto simp: AccountBalance_def Client_Do_def Let_def split: sum.splits option.splits prod.splits)
  have 4: "this (snd (GetTodayFixturesJSON E sport limit w)) = this w"
    using raw_frame(1) [of E sport limit w]
    by (auto simp: GetTodayFixturesJSON_def split: prod.splits outcome.splits option.splits sum.splits)
  have 6: "this (snd (GetEventJSON E eid w)) = this w"
    using raw_frame(2) [of E eid w]
    by (auto simp: GetEventJSON_def split: prod.splits outcome.splits option.splits sum.splits)
  from 1 2 4 6 raw_frame show ?thesis by simp
qed

end
